theory Spec2Isabelle
  imports Complex_Main "HOL-Library.Multiset" "HOL-Library.Log_Nat"
begin

section \<open>Numeric cells\<close>

text \<open>
  A numeric cell of a pandas column is an IEEE 754 double: a finite number, a zero of
  either sign, an infinity or NaN. A finite double is held as the real number it
  denotes (\<open>Fin 0\<close> is the positive zero), and an arithmetic operation rounds its exact
  result to the nearest double, ties to even, as numpy's elementwise operations do.
\<close>

datatype fl = Fin real | NegZero | PInf | NInf | NaN

fun is_fin :: "fl \<Rightarrow> bool" where
  "is_fin (Fin _) = True"
| "is_fin NegZero = True"
| "is_fin _ = False"

fun fin_val :: "fl \<Rightarrow> real" where
  "fin_val (Fin x) = x"
| "fin_val _ = 0"

fun is_zero :: "fl \<Rightarrow> bool" where
  "is_zero (Fin x) = (x = 0)"
| "is_zero NegZero = True"
| "is_zero _ = False"

fun is_inf :: "fl \<Rightarrow> bool" where
  "is_inf PInf = True"
| "is_inf NInf = True"
| "is_inf _ = False"

text \<open>The sign bit (of a value that is not NaN).\<close>

fun negative :: "fl \<Rightarrow> bool" where
  "negative (Fin x) = (x < 0)"
| "negative NegZero = True"
| "negative NInf = True"
| "negative _ = False"

definition zero_of :: "bool \<Rightarrow> fl" where
  "zero_of neg = (if neg then NegZero else Fin 0)"

definition inf_of :: "bool \<Rightarrow> fl" where
  "inf_of neg = (if neg then NInf else PInf)"

text \<open>The nearest integer, a tie going to the even one.\<close>

definition round_half_even :: "real \<Rightarrow> int" where
  "round_half_even x =
     (let f = \<lfloor>x\<rfloor>; d = x - of_int f
      in if d < 1 / 2 then f else if 1 / 2 < d then f + 1 else if even f then f else f + 1)"

text \<open>The binary exponent of a positive number \<open>x\<close>: the \<open>e\<close> with \<open>2^e \<le> x < 2^(e+1)\<close>.\<close>

definition binary_exponent :: "real \<Rightarrow> int" where
  "binary_exponent x = (if 1 \<le> x then bitlen \<lfloor>x\<rfloor> - 1 else - bitlen (\<lceil>1 / x\<rceil> - 1))"

text \<open>
  Rounding to double: 53 significant bits, the exponent not below -1022 (below it the
  spacing stays \<open>2^-1074\<close>, down to a zero that keeps the sign), and infinity from
  \<open>2^1024\<close> on.
\<close>

definition round_double :: "real \<Rightarrow> fl" where
  "round_double x =
     (if x = 0 then Fin 0
      else
        let e = max (binary_exponent \<bar>x\<bar>) (- 1022);
            quantum = 2 powi (e - 52);
            m = round_half_even (\<bar>x\<bar> / quantum);
            y = of_int m * quantum
        in if 2 ^ 1024 \<le> y then inf_of (x < 0)
           else if m = 0 then zero_of (x < 0)
           else Fin (sgn x * y))"

text \<open>Division, subtraction and multiplication of doubles.\<close>

definition fdiv :: "fl \<Rightarrow> fl \<Rightarrow> fl" where
  "fdiv a b =
     (if a = NaN \<or> b = NaN then NaN
      else if (is_inf a \<and> is_inf b) \<or> (is_zero a \<and> is_zero b) then NaN
      else if is_inf a \<or> is_zero b then inf_of (negative a \<noteq> negative b)
      else if is_zero a \<or> is_inf b then zero_of (negative a \<noteq> negative b)
      else round_double (fin_val a / fin_val b))"

definition fsub :: "fl \<Rightarrow> fl \<Rightarrow> fl" where
  "fsub a b =
     (if a = NaN \<or> b = NaN then NaN
      else if is_inf a \<and> is_inf b then (if negative a = negative b then NaN else a)
      else if is_inf a then a
      else if is_inf b then inf_of (\<not> negative b)
      else if fin_val a - fin_val b = 0
        then (if a = NegZero \<and> b \<noteq> NegZero then NegZero else Fin 0)
      else round_double (fin_val a - fin_val b))"

definition fmul :: "fl \<Rightarrow> fl \<Rightarrow> fl" where
  "fmul a b =
     (if a = NaN \<or> b = NaN then NaN
      else if (is_zero a \<and> is_inf b) \<or> (is_inf a \<and> is_zero b) then NaN
      else if is_inf a \<or> is_inf b then inf_of (negative a \<noteq> negative b)
      else if is_zero a \<or> is_zero b then zero_of (negative a \<noteq> negative b)
      else round_double (fin_val a * fin_val b))"

text \<open>\<open>Series.fillna(v)\<close>: NaN becomes \<open>v\<close>, everything else stays.\<close>

fun fillna :: "real \<Rightarrow> fl \<Rightarrow> fl" where
  "fillna v NaN = Fin v"
| "fillna v x = x"

text \<open>
  \<open>Series.ffill()\<close> (\<open>fillna(method='ffill')\<close>): a NaN takes the last value that
  is not NaN before it; leading NaNs stay.
\<close>

fun ffill_from :: "fl \<Rightarrow> fl list \<Rightarrow> fl list" where
  "ffill_from c [] = []"
| "ffill_from c (x # xs) = (if x = NaN then c # ffill_from c xs else x # ffill_from x xs)"

definition ffill :: "fl list \<Rightarrow> fl list" where
  "ffill xs = ffill_from NaN xs"

text \<open>\<open>Series.shift(1)\<close>: every value moves one row down, the first row is NaN.\<close>

definition shift1 :: "fl list \<Rightarrow> fl list" where
  "shift1 xs = take (length xs) (NaN # xs)"

text \<open>
  \<open>Series.pct_change()\<close> with its defaults (\<open>periods=1\<close>, \<open>fill_method='pad'\<close>):
  the column is forward-filled, then \<open>data / data.shift(1) - 1\<close>.
\<close>

definition pct_change :: "fl list \<Rightarrow> fl list" where
  "pct_change xs =
     (let data = ffill xs
      in map (\<lambda>(cur, prev). fsub (fdiv cur prev) (Fin 1)) (zip data (shift1 data)))"

section \<open>Rolling windows\<close>

text \<open>
  \<open>Series.rolling(window=w)\<close> with its defaults: the window of row \<open>i\<close> is the rows
  \<open>i - w + 1 .. i\<close> that exist, infinities count as missing, and the aggregate is NaN
  unless the window holds at least \<open>min_periods = w\<close> observations. Where it is not
  NaN, the aggregate is what the library's kernel makes of the rows seen so far: pandas
  keeps running sums over the rows up to \<open>i\<close> in doubles, so the kernel is given these
  rows and the window length, and no later row.
\<close>

definition window_at :: "nat \<Rightarrow> fl list \<Rightarrow> nat \<Rightarrow> fl list" where
  "window_at w xs i = (let start = i + 1 - w in take (i + 1 - start) (drop start xs))"

definition rolling :: "nat \<Rightarrow> (nat \<Rightarrow> fl list \<Rightarrow> fl) \<Rightarrow> fl list \<Rightarrow> fl list" where
  "rolling w agg xs =
     map (\<lambda>i. if w \<le> length (filter is_fin (window_at w xs i))
              then agg w (take (i + 1) xs) else NaN)
         [0..<length xs]"

section \<open>Errors, tables and the library\<close>

text \<open>
  The exceptions the code can meet. The \<open>ValueError\<close>s are told apart by what the
  library complains about; \<open>FitError\<close> stands for whatever else a model fit raises.
\<close>

datatype value_error =
    Unparseable_Datetime
  | Out_Of_Bounds_Datetime
  | Duplicate_Labels
  | NaT_Range
  | Missing_Values
  | Too_Few_Observations
  | Too_Few_Rows
  | NaN_In_Ds
  | Prediction_Range

datatype error =
    FileNotFoundError string
  | ParserError string
  | KeyError string
  | TypeError
  | ZeroDivisionError
  | ValueError value_error
  | FitError string

definition and_then :: "error + 'a \<Rightarrow> ('a \<Rightarrow> error + 'b) \<Rightarrow> error + 'b" where
  "and_then r f = (case r of Inl e \<Rightarrow> Inl e | Inr x \<Rightarrow> f x)"

fun traverse :: "('a \<Rightarrow> error + 'b) \<Rightarrow> 'a list \<Rightarrow> error + 'b list" where
  "traverse f [] = Inr []"
| "traverse f (x # xs) =
     (case f x of
        Inl e \<Rightarrow> Inl e
      | Inr y \<Rightarrow> (case traverse f xs of Inl e \<Rightarrow> Inl e | Inr ys \<Rightarrow> Inr (y # ys)))"

text \<open>
  A column of a DataFrame: floats, integers, text cells (\<open>None\<close> is a missing cell) or
  timestamps in nanoseconds since the epoch (\<open>None\<close> is NaT). A frame is its columns
  in order, under their names; the row index is the default \<open>RangeIndex\<close> and is
  left implicit.
\<close>

datatype column =
    Floats "fl list"
  | Ints "int list"
  | Objects "string option list"
  | Datetimes "int option list"

type_synonym frame = "(string \<times> column) list"

fun col_len :: "column \<Rightarrow> nat" where
  "col_len (Floats xs) = length xs"
| "col_len (Ints xs) = length xs"
| "col_len (Objects xs) = length xs"
| "col_len (Datetimes xs) = length xs"

text \<open>\<open>df[name]\<close> raises \<open>KeyError\<close> when the column is absent.\<close>

definition get_col :: "frame \<Rightarrow> string \<Rightarrow> error + column" where
  "get_col df name = (case map_of df name of None \<Rightarrow> Inl (KeyError name) | Some c \<Rightarrow> Inr c)"

text \<open>\<open>df[name] = c\<close> replaces the column in place or appends it.\<close>

fun set_col :: "frame \<Rightarrow> string \<Rightarrow> column \<Rightarrow> frame" where
  "set_col [] name c = [(name, c)]"
| "set_col ((n, c') # df) name c =
     (if n = name then (n, c) # df else (n, c') # set_col df name c)"

fun col_take :: "nat list \<Rightarrow> column \<Rightarrow> column" where
  "col_take idx (Floats xs) = Floats (map ((!) xs) idx)"
| "col_take idx (Ints xs) = Ints (map ((!) xs) idx)"
| "col_take idx (Objects xs) = Objects (map ((!) xs) idx)"
| "col_take idx (Datetimes xs) = Datetimes (map ((!) xs) idx)"

definition take_rows :: "nat list \<Rightarrow> frame \<Rightarrow> frame" where
  "take_rows idx df = map (\<lambda>(n, c). (n, col_take idx c)) df"

definition rectangular :: "nat \<Rightarrow> frame \<Rightarrow> bool" where
  "rectangular n df = list_all (\<lambda>(name, c). col_len c = n) df"

text \<open>
  What the code takes from its libraries without fixing it itself:
  \<^item> \<open>strptime\<close>: how \<open>pd.to_datetime\<close> reads one text cell (\<open>None\<close>: it cannot);
  \<^item> \<open>epoch_ns\<close>: how it reads a finite number (nanoseconds since the epoch);
  \<^item> \<open>argsort\<close>: numpy's \<open>argsort\<close> of the kind \<open>sort_values\<close> asks for by
    default (\<open>quicksort\<close>);
  \<^item> \<open>roll_mean\<close>, \<open>roll_std\<close>: the kernels of \<open>rolling(w).mean()\<close> and
    \<open>rolling(w).std()\<close>, given the window length and the rows up to the current one;
  \<^item> \<open>prophet_fit\<close>: Prophet's fit of the history (the \<open>ds\<close> and \<open>y\<close> columns), giving
    the fitted curve \<open>yhat\<close> or the error the fit raises;
  \<^item> \<open>sarimax_fit\<close>: the SARIMA(1,1,1)x(1,1,1,60) fit of the price column, giving the
    predicted mean \<open>h\<close> steps after the last observation, or the error the fit raises;
  \<^item> \<open>decompose_additive\<close>: the numbers of the additive decomposition (trend,
    seasonal, residual) of a series with a period.
\<close>

record library =
  strptime :: "string \<Rightarrow> int option"
  epoch_ns :: "real \<Rightarrow> int"
  argsort :: "int list \<Rightarrow> nat list"
  roll_mean :: "nat \<Rightarrow> fl list \<Rightarrow> fl"
  roll_std :: "nat \<Rightarrow> fl list \<Rightarrow> fl"
  prophet_fit :: "int option list \<Rightarrow> column \<Rightarrow> error + (int \<Rightarrow> real)"
  sarimax_fit :: "column \<Rightarrow> error + (nat \<Rightarrow> real)"
  decompose_additive :: "real list \<Rightarrow> nat \<Rightarrow> fl list \<times> fl list \<times> fl list"

text \<open>
  \<open>pd.to_datetime(column)\<close> with its defaults (\<open>errors='raise'\<close>): a missing cell
  becomes NaT, a text cell that is no date raises. An integer is a count of nanoseconds
  since the epoch, but the least 64-bit integer is the bit pattern of NaT.
\<close>

fun to_datetime :: "library \<Rightarrow> column \<Rightarrow> error + int option list" where
  "to_datetime L (Datetimes ts) = Inr ts"
| "to_datetime L (Ints xs) =
     Inr (map (\<lambda>x. if x = - 9223372036854775808 then None else Some x) xs)"
| "to_datetime L (Objects cs) =
     traverse (\<lambda>c. case c of
                     None \<Rightarrow> Inr None
                   | Some s \<Rightarrow> (case strptime L s of
                                 None \<Rightarrow> Inl (ValueError Unparseable_Datetime)
                               | Some t \<Rightarrow> Inr (Some t))) cs"
| "to_datetime L (Floats xs) =
     traverse (\<lambda>x. case x of
                     NaN \<Rightarrow> Inr None
                   | Fin r \<Rightarrow> Inr (Some (epoch_ns L r))
                   | _ \<Rightarrow> Inl (ValueError Out_Of_Bounds_Datetime)) xs"

text \<open>
  The indexer of \<open>sort_values(by=...)\<close> on a timestamp column (\<open>ascending=True\<close>,
  \<open>na_position='last'\<close>): the rows with a timestamp in the order \<open>argsort\<close> gives
  their keys, then the rows without one.
\<close>

definition non_nan_idx :: "int option list \<Rightarrow> nat list" where
  "non_nan_idx ts = filter (\<lambda>i. ts ! i \<noteq> None) [0..<length ts]"

definition nan_idx :: "int option list \<Rightarrow> nat list" where
  "nan_idx ts = filter (\<lambda>i. ts ! i = None) [0..<length ts]"

definition non_nans :: "int option list \<Rightarrow> int list" where
  "non_nans ts = map (\<lambda>i. the (ts ! i)) (non_nan_idx ts)"

definition nargsort :: "library \<Rightarrow> int option list \<Rightarrow> nat list" where
  "nargsort L ts = map ((!) (non_nan_idx ts)) (argsort L (non_nans ts)) @ nan_idx ts"

text \<open>
  What numpy promises of \<open>argsort\<close>, whatever the kind: the result \<open>p\<close> lists every
  position of \<open>ks\<close> once, and \<open>ks\<close> read in that order is ascending. Which of two
  equal keys comes first is left to the algorithm.
\<close>

definition sorting_indexer :: "int list \<Rightarrow> nat list \<Rightarrow> bool" where
  "sorting_indexer ks p = (mset p = mset [0..<length ks] \<and> sorted (map ((!) ks) p))"

definition argsort_ok :: "library \<Rightarrow> int option list \<Rightarrow> bool" where
  "argsort_ok L ts = sorting_indexer (non_nans ts) (argsort L (non_nans ts))"

text \<open>
  Arithmetic on a column needs numbers: text and timestamps raise \<open>TypeError\<close>; an
  object column that holds missing cells only (as an empty table has) computes as NaN.
\<close>

fun as_float :: "column \<Rightarrow> error + fl list" where
  "as_float (Floats xs) = Inr xs"
| "as_float (Ints xs) = Inr (map (\<lambda>i. round_double (real_of_int i)) xs)"
| "as_float (Objects cs) =
     (if list_all (\<lambda>c. c = None) cs then Inr (map (\<lambda>c. NaN) cs) else Inl TypeError)"
| "as_float (Datetimes ts) = Inl TypeError"

section \<open>bitcoin\_utils.transform\_bitcoin\_data\<close>

text \<open>
  The body of the \<open>try\<close> between reading and writing: parse the timestamps, sort by
  them, add the three derived columns. \<open>df['price_usd']\<close> is read three times in the
  source; no assignment in between touches it, so it is read once here.
\<close>

definition derive_metrics :: "library \<Rightarrow> frame \<Rightarrow> error + frame" where
  "derive_metrics L df0 =
     and_then (get_col df0 ''timestamp'') (\<lambda>c.
     and_then (to_datetime L c) (\<lambda>ts.
       let df1 = take_rows (nargsort L ts) (set_col df0 ''timestamp'' (Datetimes ts))
       in and_then (get_col df1 ''price_usd'') (\<lambda>pc.
          and_then (as_float pc) (\<lambda>price.
            let df2 = set_col df1 ''price_change_pct''
                        (Floats (map (\<lambda>x. fmul (fillna 0 x) (Fin 100)) (pct_change price)));
                df3 = set_col df2 ''moving_avg_price'' (Floats (rolling 7 (roll_mean L) price));
                df4 = set_col df3 ''volatility_15m'' (Floats (rolling 15 (roll_std L) price))
            in Inr df4))))"

text \<open>The columns \<open>derive_metrics\<close> assigns; every other column is only rearranged.\<close>

definition derived_names :: "string set" where
  "derived_names = {''timestamp'', ''price_change_pct'', ''moving_avg_price'', ''volatility_15m''}"

text \<open>
  The order of a sorted timestamp column: ascending, the missing timestamps last.
\<close>

definition na_last_le :: "int option \<Rightarrow> int option \<Rightarrow> bool" where
  "na_last_le a b =
     (case b of None \<Rightarrow> True | Some y \<Rightarrow> (case a of None \<Rightarrow> False | Some x \<Rightarrow> x \<le> y))"

text \<open>
  The world the scripts act on: the files (a CSV file is held as the table
  \<open>pd.read_csv\<close> builds from it, a PNG file as the figure saved into it) and what was
  printed.
\<close>

record decomposition =
  observed :: "fl list"
  trend :: "fl list"
  seasonal :: "fl list"
  resid :: "fl list"

text \<open>A figure: its panels from top to bottom, each with the series it draws, and its size.\<close>

datatype panel = Observed | Trend | Seasonal | Resid

record figure =
  panels :: "(panel \<times> fl list) list"
  size_inches :: "real \<times> real"

datatype content = CSV frame | PNG figure

datatype line = Line string | ErrorLine string error

record world =
  files :: "string \<Rightarrow> content option"
  stdout :: "line list"

text \<open>A call either returns a value or raises; both leave a world behind.\<close>

datatype 'a result = Returned 'a world | Raised error world

fun world_of :: "'a result \<Rightarrow> world" where
  "world_of (Returned v w) = w"
| "world_of (Raised e w) = w"

fun raised :: "'a result \<Rightarrow> error option" where
  "raised (Returned v w) = None"
| "raised (Raised e w) = Some e"

definition read_csv :: "world \<Rightarrow> string \<Rightarrow> error + frame" where
  "read_csv w path =
     (case files w path of
        None \<Rightarrow> Inl (FileNotFoundError path)
      | Some (CSV df) \<Rightarrow> Inr df
      | Some (PNG fig) \<Rightarrow> Inl (ParserError path))"

definition to_csv :: "frame \<Rightarrow> string \<Rightarrow> world \<Rightarrow> world" where
  "to_csv df path w = w\<lparr>files := (files w)(path \<mapsto> CSV df)\<rparr>"

definition print :: "line \<Rightarrow> world \<Rightarrow> world" where
  "print l w = w\<lparr>stdout := stdout w @ [l]\<rparr>"

definition transform_bitcoin_data :: "library \<Rightarrow> string \<Rightarrow> string \<Rightarrow> world \<Rightarrow> unit result" where
  "transform_bitcoin_data L input_file output_file w =
     (case and_then (read_csv w input_file) (derive_metrics L) of
        Inr df \<Rightarrow>
          Returned () (print (Line (''Transformed data saved to '' @ output_file))
                         (to_csv df output_file w))
      | Inl e \<Rightarrow> Returned () (print (ErrorLine ''Error during transformation: '' e) w))"

section \<open>bitcoin\_example: the forecasters, the decomposition and main\<close>

text \<open>One minute in nanoseconds: the step of the frequency \<open>'T'\<close>.\<close>

definition minute :: int where
  "minute = 60000000000"

text \<open>\<open>pd.date_range(start=s, periods=n, freq=f)\<close>: \<open>n\<close> points from \<open>s\<close> on, \<open>f\<close> apart.\<close>

definition date_range :: "int \<Rightarrow> nat \<Rightarrow> int \<Rightarrow> int list" where
  "date_range start periods freq = map (\<lambda>k. start + int k * freq) [0..<periods]"

text \<open>
  \<open>pd.date_range(start=s, end=e, freq=f)\<close>: the points \<open>s, s + f, ...\<close> up to \<open>e\<close>.
\<close>

definition date_range_to :: "int \<Rightarrow> int \<Rightarrow> int \<Rightarrow> int list" where
  "date_range_to start stop freq = date_range start (nat ((stop - start) div freq) + 1) freq"

subsection \<open>run\_prophet\_forecast\<close>

text \<open>
  \<open>Prophet.make_future_dataframe(periods, freq)\<close> with \<open>include_history=True\<close>:
  \<open>periods + 1\<close> dates from the last date of the history on, those after it kept and cut
  to \<open>periods\<close>, appended to the dates of the history.
\<close>

definition make_future_dataframe :: "int list \<Rightarrow> nat \<Rightarrow> int \<Rightarrow> int list" where
  "make_future_dataframe history_dates periods freq =
     (let last_date = Max (set history_dates);
          dates = filter (\<lambda>d. last_date < d) (date_range last_date (periods + 1) freq)
      in history_dates @ take periods dates)"

text \<open>
  The forecast table before it is written. The fit keeps the dates of the history sorted
  and without repetitions; \<open>predict\<close> refuses a missing date and gives one row for every
  date of the future frame. (The arrow the source prints before \<open>Prophet step
  complete\<close> is written \<open>->\<close>.) Of the columns Prophet returns, \<open>ds\<close> and \<open>yhat\<close> are
  kept here (the others, such as \<open>trend\<close> and \<open>yhat_lower\<close>, are not read by any
  script); the two rolling columns are computed on \<open>yhat\<close>. \<open>freq\<close> is the step of
  the offset alias in nanoseconds (\<open>'T'\<close> is \<open>minute\<close>).
\<close>

definition prophet_forecast :: "library \<Rightarrow> frame \<Rightarrow> nat \<Rightarrow> int \<Rightarrow> error + frame" where
  "prophet_forecast L df periods freq =
     and_then (get_col df ''timestamp'') (\<lambda>tc.
     and_then (get_col df ''price_usd'') (\<lambda>y.
     and_then (to_datetime L tc) (\<lambda>ds.
     and_then (prophet_fit L ds y) (\<lambda>model.
       if None \<in> set ds then Inl (ValueError NaN_In_Ds)
       else if ds = [] then Inl (ValueError NaT_Range)
       else
         let history_dates = sort (remdups (map the ds));
             future = make_future_dataframe history_dates periods freq;
             yhat = map (\<lambda>t. Fin (model t)) future;
             forecast0 = [(''ds'', Datetimes (map Some future)), (''yhat'', Floats yhat)];
             forecast1 = set_col forecast0 ''moving_avg_price''
                           (Floats (rolling 7 (roll_mean L) yhat));
             forecast2 = set_col forecast1 ''volatility_15m''
                           (Floats (rolling 15 (roll_std L) yhat))
         in Inr forecast2))))"

definition run_prophet_forecast :: "library \<Rightarrow> frame \<Rightarrow> nat \<Rightarrow> int \<Rightarrow> world \<Rightarrow> frame result" where
  "run_prophet_forecast L df periods freq w =
     (case prophet_forecast L df periods freq of
        Inl e \<Rightarrow> Raised e w
      | Inr forecast \<Rightarrow>
          Returned forecast
            (print (Line ''-> Prophet step complete'')
              (print (Line ''Saved Prophet forecast to forecast_prophet.csv'')
                (to_csv forecast ''forecast_prophet.csv'' w))))"

subsection \<open>run\_sarima\_forecast\<close>

text \<open>
  The model is fitted on \<open>df['price_usd']\<close>, whose index is the row numbers
  \<open>0 .. n - 1\<close>; \<open>get_forecast(steps)\<close> predicts the labels \<open>n .. n + steps - 1\<close>
  (it raises when \<open>steps\<close> is 0), and \<open>reset_index()\<close> turns these labels into the
  column that is renamed \<open>ds\<close>.
\<close>

definition sarima_forecast :: "library \<Rightarrow> frame \<Rightarrow> nat \<Rightarrow> error + frame" where
  "sarima_forecast L df steps =
     and_then (get_col df ''price_usd'') (\<lambda>y.
     and_then (sarimax_fit L y) (\<lambda>predicted_mean.
       if steps = 0 then Inl (ValueError Prediction_Range)
       else
         let n = col_len y
         in Inr [(''ds'', Ints (map int [n..<n + steps])),
                 (''yhat_sarima'', Floats (map (\<lambda>h. Fin (predicted_mean h)) [1..<steps + 1]))]))"

definition run_sarima_forecast :: "library \<Rightarrow> frame \<Rightarrow> nat \<Rightarrow> world \<Rightarrow> frame result" where
  "run_sarima_forecast L df steps w =
     (case sarima_forecast L df steps of
        Inl e \<Rightarrow> Raised e w
      | Inr sarima_df \<Rightarrow>
          Returned sarima_df
            (print (Line ''-> SARIMA step complete'')
              (print (Line ''Saved SARIMA forecast to forecast_sarima.csv'')
                (to_csv sarima_df ''forecast_sarima.csv'' w))))"

subsection \<open>run\_seasonal\_decompose\<close>

text \<open>
  \<open>Series.asfreq(freq)\<close> on a series indexed by timestamps: the new index is
  \<open>date_range(index.min(), index.max(), freq)\<close> and the series is reindexed on it, so
  a point of the new index holds the row whose timestamp is exactly that point, if there
  is one. Reindexing refuses an index with repeated labels. The result gives, for every
  point of the new index, the row it is taken from.
\<close>

definition asfreq :: "int option list \<Rightarrow> int \<Rightarrow> error + (int \<times> nat option) list" where
  "asfreq index freq =
     (if index = [] then Inr []
      else if non_nans index = [] then Inl (ValueError NaT_Range)
      else
        let dti = date_range_to (Min (set (non_nans index))) (Max (set (non_nans index))) freq
        in if \<not> distinct index then Inl (ValueError Duplicate_Labels)
           else Inr (map (\<lambda>g. (g, map_of (zip index [0..<length index]) (Some g))) dti))"

text \<open>
  \<open>df.set_index('timestamp')['price_usd'].asfreq('T').fillna(method='ffill')\<close>.
  \<open>main\<close> has turned the timestamp column into timestamps before; a column of
  another kind is taken to raise.
\<close>

definition resample :: "frame \<Rightarrow> error + (int \<times> fl) list" where
  "resample df =
     and_then (get_col df ''timestamp'') (\<lambda>tc.
     and_then (get_col df ''price_usd'') (\<lambda>pc.
       case tc of
         Datetimes index \<Rightarrow>
           and_then (asfreq index minute) (\<lambda>slots.
           and_then (as_float pc) (\<lambda>vals.
             let reindexed = map (\<lambda>(g, j). case j of None \<Rightarrow> NaN | Some j \<Rightarrow> vals ! j) slots
             in Inr (zip (map fst slots) (ffill reindexed))))
       | _ \<Rightarrow> Inl TypeError))"

text \<open>
  \<open>seasonal_decompose(x, model='additive', period=period)\<close>: it refuses values that
  are not finite and a series shorter than two periods; the numbers of the decomposition
  are the library's.
\<close>

definition seasonal_decompose :: "library \<Rightarrow> fl list \<Rightarrow> nat \<Rightarrow> error + decomposition" where
  "seasonal_decompose L x period =
     (if \<not> list_all is_fin x then Inl (ValueError Missing_Values)
      else if length x < 2 * period then Inl (ValueError Too_Few_Observations)
      else if period = 0 then Inl ZeroDivisionError
      else
        let (t, s, r) = decompose_additive L (map fin_val x) period
        in Inr \<lparr>observed = x, trend = t, seasonal = s, resid = r\<rparr>)"

text \<open>
  \<open>DecomposeResult.plot()\<close> with its defaults draws four panels, one under the other:
  the observed series, the trend, the seasonal component and the residual.
\<close>

definition plot :: "decomposition \<Rightarrow> figure" where
  "plot result =
     \<lparr>panels = [(Observed, observed result), (Trend, trend result),
                (Seasonal, seasonal result), (Resid, resid result)],
      size_inches = (6.4, 4.8)\<rparr>"

definition set_size_inches :: "real \<times> real \<Rightarrow> figure \<Rightarrow> figure" where
  "set_size_inches wh fig = fig\<lparr>size_inches := wh\<rparr>"

definition savefig :: "figure \<Rightarrow> string \<Rightarrow> world \<Rightarrow> world" where
  "savefig fig path w = w\<lparr>files := (files w)(path \<mapsto> PNG fig)\<rparr>"

definition run_seasonal_decompose :: "library \<Rightarrow> frame \<Rightarrow> nat \<Rightarrow> world \<Rightarrow> unit result" where
  "run_seasonal_decompose L df period w =
     (case and_then (resample df) (\<lambda>df_indexed. seasonal_decompose L (map snd df_indexed) period) of
        Inl e \<Rightarrow> Raised e w
      | Inr result \<Rightarrow>
          Returned ()
            (print (Line ''-> Decompose step complete'')
              (print (Line ''Saved seasonal decomposition plot to seasonal_decompose.png'')
                (savefig (set_size_inches (10, 8) (plot result)) ''seasonal_decompose.png'' w))))"

subsection \<open>main\<close>

text \<open>The history is loaded and its timestamps parsed; a failure here raises as well.\<close>

definition load_history :: "library \<Rightarrow> world \<Rightarrow> error + frame" where
  "load_history L w =
     and_then (read_csv w ''bitcoin_price_transformed_full.csv'') (\<lambda>df.
     and_then (get_col df ''timestamp'') (\<lambda>tc.
     and_then (to_datetime L tc) (\<lambda>ts.
       Inr (set_col df ''timestamp'' (Datetimes ts)))))"

definition main :: "library \<Rightarrow> world \<Rightarrow> unit result" where
  "main L w =
     (case load_history L w of
        Inl e \<Rightarrow> Raised e w
      | Inr df \<Rightarrow>
          (case run_prophet_forecast L df 60 minute w of
             Raised e w1 \<Rightarrow> Raised e w1
           | Returned forecast_prophet w1 \<Rightarrow>
               (case run_sarima_forecast L df 60 w1 of
                  Raised e w2 \<Rightarrow> Raised e w2
                | Returned sarima_df w2 \<Rightarrow> run_seasonal_decompose L df 60 w2)))"

section \<open>Last-observed-value-hold as the specification words it\<close>

text \<open>
  Last-observed-value-hold, written from the specification's words: the value a
  resampled point \<open>g\<close> should hold is the value of the latest sample at or before \<open>g\<close>;
  before the first sample there is none.
\<close>

definition last_observed :: "(int \<times> fl) list \<Rightarrow> int \<Rightarrow> fl" where
  "last_observed samples g =
     (let earlier = filter (\<lambda>t. t \<le> g) (map fst samples)
      in if earlier = [] then NaN
         else case map_of samples (Max (set earlier)) of None \<Rightarrow> NaN | Some v \<Rightarrow> v)"

section \<open>A library to run the scripts with\<close>

text \<open>
  Concrete stand-ins for the library, used to run the definitions on examples:
  an \<open>argsort\<close> that keeps equal keys in their order, rolling kernels that round the
  exact mean and the exact sample standard deviation of the window, a date parser that
  knows three dates, a Prophet fit that raises on fewer than two rows (as Prophet does)
  and else gives a line, a SARIMA fit that predicts \<open>h\<close> at step \<open>h\<close>, and a
  decomposition with the series as its trend.
\<close>

definition stable_argsort :: "int list \<Rightarrow> nat list" where
  "stable_argsort ks = map snd (sort_key fst (zip ks [0..<length ks]))"

definition exact_mean :: "real list \<Rightarrow> real" where
  "exact_mean xs = sum_list xs / real (length xs)"

definition exact_std :: "real list \<Rightarrow> real" where
  "exact_std xs =
     sqrt (sum_list (map (\<lambda>x. (x - exact_mean xs)\<^sup>2) xs) / real (length xs - 1))"

definition last_rows :: "nat \<Rightarrow> fl list \<Rightarrow> real list" where
  "last_rows w rows = map fin_val (drop (length rows - w) rows)"

definition example_strptime :: "string \<Rightarrow> int option" where
  "example_strptime s =
     (if s = ''1970-01-01 00:00:00'' then Some 0
      else if s = ''1970-01-01 00:01:00'' then Some minute
      else if s = ''1970-01-01 00:02:00'' then Some (2 * minute)
      else None)"

definition example_library :: library where
  "example_library =
     \<lparr>strptime = example_strptime,
      epoch_ns = (\<lambda>r. \<lfloor>r\<rfloor>),
      argsort = stable_argsort,
      roll_mean = (\<lambda>w rows. round_double (exact_mean (last_rows w rows))),
      roll_std = (\<lambda>w rows. round_double (exact_std (last_rows w rows))),
      prophet_fit = (\<lambda>ds y. if col_len y < 2 then Inl (ValueError Too_Few_Rows)
                             else Inr (\<lambda>t. real_of_int (t div minute))),
      sarimax_fit = (\<lambda>y. Inr (\<lambda>h. real h)),
      decompose_additive = (\<lambda>x period. (map Fin x, map (\<lambda>v. Fin 0) x, map (\<lambda>v. Fin 0) x))\<rparr>"

text \<open>A raw table of two samples, the later one first.\<close>

definition example_table :: frame where
  "example_table =
     [(''timestamp'', Objects [Some ''1970-01-01 00:01:00'', Some ''1970-01-01 00:00:00'']),
      (''price_usd'', Floats [Fin 110, Fin 100]),
      (''market_cap_usd'', Floats [Fin 2200, Fin 2000])]"


text \<open>
  A raw table of three samples, one per minute and in the order of their timestamps,
  with the prices 100, 110 and 165.
\<close>

definition rising_table :: frame where
  "rising_table =
     [(''timestamp'', Objects [Some ''1970-01-01 00:00:00'', Some ''1970-01-01 00:01:00'',
                              Some ''1970-01-01 00:02:00'']),
      (''price_usd'', Floats [Fin 100, Fin 110, Fin 165])]"

text \<open>A history of fifteen samples, one per minute, with the prices 100, 101, ..., 114.\<close>

definition example_history :: frame where
  "example_history =
     [(''timestamp'', Datetimes (map (\<lambda>k. Some (int k * minute)) [0..<15])),
      (''price_usd'', Floats (map (\<lambda>k. Fin (100 + real k)) [0..<15]))]"

text \<open>
  A raw table with a timestamp that is no date, a table with the columns and no rows (as
  \<open>pd.read_csv\<close> reads a file that has its header only), and worlds that hold them as
  the input of the transformation; the first world also holds an output written before.
\<close>

definition bad_table :: frame where
  "bad_table =
     [(''timestamp'', Objects [Some ''1970-01-01 00:00:00'', Some ''yesterday'']),
      (''price_usd'', Floats [Fin 100, Fin 110])]"

definition empty_table :: frame where
  "empty_table =
     [(''timestamp'', Objects []), (''price_usd'', Objects []), (''market_cap_usd'', Objects [])]"

definition bad_world :: world where
  "bad_world =
     \<lparr>files = [''bitcoin_price_data.csv'' \<mapsto> CSV bad_table,
               ''bitcoin_price_transformed.csv'' \<mapsto> CSV example_table],
      stdout = []\<rparr>"

text \<open>
  Two tables for the resampling: samples at 0:00, 1:30 and 3:00 (the second is not a
  whole number of minutes after the first), and two samples three minutes apart.
\<close>

definition off_grid_table :: frame where
  "off_grid_table =
     [(''timestamp'', Datetimes [Some 0, Some 90000000000, Some 180000000000]),
      (''price_usd'', Floats [Fin 100, Fin 200, Fin 300])]"

definition gap_table :: frame where
  "gap_table =
     [(''timestamp'', Datetimes [Some 0, Some 180000000000]),
      (''price_usd'', Floats [Fin 100, Fin 130])]"

text \<open>
  Worlds for \<open>main\<close>: one whose history has a single row, one whose history is the
  fifteen samples.
\<close>

definition short_table :: frame where
  "short_table = [(''timestamp'', Datetimes [Some 0]), (''price_usd'', Floats [Fin 100])]"

definition short_world :: world where
  "short_world =
     \<lparr>files = [''bitcoin_price_transformed_full.csv'' \<mapsto> CSV short_table], stdout = []\<rparr>"

definition history_world :: world where
  "history_world =
     \<lparr>files = [''bitcoin_price_transformed_full.csv'' \<mapsto> CSV example_history], stdout = []\<rparr>"

definition example_world :: world where
  "example_world = \<lparr>files = [''bitcoin_price_data.csv'' \<mapsto> CSV example_table], stdout = []\<rparr>"

definition empty_world :: world where
  "empty_world = \<lparr>files = [''bitcoin_price_data.csv'' \<mapsto> CSV empty_table], stdout = []\<rparr>"

text \<open>
  The square root has no code equation that computes; without the one it has, terms are
  evaluated up to the roots in them.
\<close>

declare root_def [code del]

section \<open>Tables: reading, writing and rearranging columns\<close>

lemma get_col_set_col_same: "get_col (set_col df n c) n = Inr c"
  by (induction df n c rule: set_col.induct) (auto simp: get_col_def)

lemma get_col_set_col_other: "m \<noteq> n \<Longrightarrow> get_col (set_col df n c) m = get_col df m"
  by (induction df n c rule: set_col.induct) (auto simp: get_col_def)

lemma get_col_take_rows:
  "get_col (take_rows idx df) n = (case get_col df n of Inl e \<Rightarrow> Inl e | Inr c \<Rightarrow> Inr (col_take idx c))"
  by (induction df) (auto simp: get_col_def take_rows_def)

lemma rectangular_set_col:
  "rectangular n df \<Longrightarrow> col_len c = n \<Longrightarrow> rectangular n (set_col df name c)"
  by (induction df name c rule: set_col.induct) (auto simp: rectangular_def)

lemma col_len_col_take: "col_len (col_take idx c) = length idx"
  by (cases c) auto

lemma rectangular_take_rows: "rectangular (length idx) (take_rows idx df)"
  by (induction df) (auto simp: rectangular_def take_rows_def col_len_col_take)

lemma mset_map_nth_perm:
  "mset p = mset [0..<length xs] \<Longrightarrow> mset (map ((!) xs) p) = mset xs"
proof -
  assume "mset p = mset [0..<length xs]"
  then have "image_mset ((!) xs) (mset p) = image_mset ((!) xs) (mset [0..<length xs])" by simp
  also have "\<dots> = mset (map ((!) xs) [0..<length xs])" by (simp del: mset_upt)
  finally show ?thesis by (simp add: map_nth del: mset_upt)
qed

lemma length_non_nans: "length (non_nans ts) = length (non_nan_idx ts)"
  by (simp add: non_nans_def)

lemma mset_nargsort:
  assumes "argsort_ok L ts"
  shows "mset (nargsort L ts) = mset [0..<length ts]"
proof -
  from assms have "mset (argsort L (non_nans ts)) = mset [0..<length (non_nan_idx ts)]"
    by (simp add: argsort_ok_def sorting_indexer_def length_non_nans)
  then have "mset (map ((!) (non_nan_idx ts)) (argsort L (non_nans ts))) = mset (non_nan_idx ts)"
    by (rule mset_map_nth_perm)
  moreover have "mset (non_nan_idx ts) + mset (nan_idx ts) = mset [0..<length ts]"
    unfolding non_nan_idx_def nan_idx_def mset_filter by (simp del: mset_upt)
  ultimately show ?thesis
    by (simp add: nargsort_def del: mset_upt)
qed

lemma length_nargsort: "argsort_ok L ts \<Longrightarrow> length (nargsort L ts) = length ts"
  using mset_nargsort [THEN arg_cong, of _ _ size] by simp

lemma set_nargsort: "argsort_ok L ts \<Longrightarrow> set (nargsort L ts) = {..<length ts}"
  using mset_nargsort [THEN arg_cong, of _ _ set_mset] by (simp add: lessThan_atLeast0)

lemma ffill_from_no_nan: "NaN \<notin> set xs \<Longrightarrow> ffill_from c xs = xs"
  by (induction xs arbitrary: c) auto

lemma length_ffill_from: "length (ffill_from c xs) = length xs"
  by (induction xs arbitrary: c) auto

lemma length_pct_change: "length (pct_change xs) = length xs"
  by (simp add: pct_change_def shift1_def ffill_def length_ffill_from Let_def)

lemma fdiv_NaN_right: "fdiv x NaN = NaN"
  by (simp add: fdiv_def)

lemma pct_change_nth:
  assumes "NaN \<notin> set xs" "i < length xs"
  shows "pct_change xs ! i =
           (if i = 0 then NaN else fsub (fdiv (xs ! i) (xs ! (i - 1))) (Fin 1))"
  using assms
  by (cases i)
    (simp_all add: pct_change_def shift1_def ffill_def ffill_from_no_nan fdiv_NaN_right
      fsub_def Let_def)

lemma length_traverse: "traverse f xs = Inr ys \<Longrightarrow> length ys = length xs"
  by (induction xs arbitrary: ys) (auto split: sum.splits)

lemma length_to_datetime: "to_datetime L c = Inr ts \<Longrightarrow> length ts = col_len c"
  by (cases c) (auto dest: length_traverse)

lemma get_col_rectangular: "rectangular n df \<Longrightarrow> get_col df name = Inr c \<Longrightarrow> col_len c = n"
  by (auto simp: rectangular_def get_col_def list_all_iff split: option.splits dest: map_of_SomeD)

lemma length_rolling: "length (rolling w agg xs) = length xs"
  by (simp add: rolling_def)

section \<open>Rolling windows\<close>

lemma rolling_nth:
  "i < length xs \<Longrightarrow> rolling w agg xs ! i =
     (if w \<le> length (filter is_fin (window_at w xs i))
      then agg w (take (i + 1) xs) else NaN)"
  by (simp add: rolling_def)

lemma length_window_at: "i < length xs \<Longrightarrow> length (window_at w xs i) = min w (i + 1)"
  by (auto simp: window_at_def Let_def)

lemma rolling_partial:
  assumes "i < length xs" "i + 1 < w"
  shows "rolling w agg xs ! i = NaN"
proof -
  have "length (filter is_fin (window_at w xs i)) \<le> length (window_at w xs i)"
    by (rule length_filter_le)
  also have "\<dots> < w" using assms by (simp add: length_window_at)
  finally show ?thesis using assms(1) by (simp add: rolling_nth)
qed

section \<open>The run of derive\_metrics on a well-formed table\<close>

lemma length_as_float: "as_float c = Inr xs \<Longrightarrow> length xs = col_len c"
  by (cases c) (auto split: if_splits)

lemma as_float_col_take:
  assumes "as_float c = Inr xs" "set idx \<subseteq> {..<col_len c}"
  shows "as_float (col_take idx c) = Inr (map ((!) xs) idx)"
proof (cases c)
  case (Objects cs)
  with assms(1) have none: "list_all (\<lambda>c. c = None) cs" and xs: "xs = map (\<lambda>c. NaN) cs"
    by (auto split: if_splits)
  from assms(2) Objects have "\<forall>j\<in>set idx. j < length cs" by auto
  with none have "list_all (\<lambda>c. c = None) (map ((!) cs) idx)"
    by (auto simp: list_all_iff)
  moreover from \<open>\<forall>j\<in>set idx. j < length cs\<close> have "map (\<lambda>c. NaN) (map ((!) cs) idx) = map ((!) xs) idx"
    by (simp add: xs)
  ultimately show ?thesis using Objects by simp
next
  case (Ints zs)
  with assms show ?thesis by auto
qed (use assms in auto)

lemma derive_metrics_run:
  assumes ts: "get_col df ''timestamp'' = Inr c" "to_datetime L c = Inr ts"
    and ps: "get_col df ''price_usd'' = Inr pc" "as_float pc = Inr ps"
    and rect: "rectangular n df"
    and sort: "argsort_ok L ts"
  shows "\<exists>out. derive_metrics L df = Inr out \<and> rectangular n out
           \<and> get_col out ''timestamp'' = Inr (Datetimes (map ((!) ts) (nargsort L ts)))
           \<and> get_col out ''price_usd'' = Inr (col_take (nargsort L ts) pc)
           \<and> as_float (col_take (nargsort L ts) pc) = Inr (map ((!) ps) (nargsort L ts))
           \<and> get_col out ''price_change_pct''
               = Inr (Floats (map (\<lambda>x. fmul (fillna 0 x) (Fin 100))
                                 (pct_change (map ((!) ps) (nargsort L ts)))))
           \<and> get_col out ''moving_avg_price''
               = Inr (Floats (rolling 7 (roll_mean L) (map ((!) ps) (nargsort L ts))))
           \<and> get_col out ''volatility_15m''
               = Inr (Floats (rolling 15 (roll_std L) (map ((!) ps) (nargsort L ts))))
           \<and> (\<forall>name col. name \<notin> derived_names \<and> get_col df name = Inr col \<longrightarrow>
                 get_col out name = Inr (col_take (nargsort L ts) col))"
proof -
  define idx where "idx = nargsort L ts"
  define df1 where "df1 = take_rows idx (set_col df ''timestamp'' (Datetimes ts))"
  define qs where "qs = map ((!) ps) idx"
  define cs where "cs = map (\<lambda>x. fmul (fillna 0 x) (Fin 100)) (pct_change qs)"
  define out where "out = set_col (set_col (set_col df1 ''price_change_pct'' (Floats cs))
      ''moving_avg_price'' (Floats (rolling 7 (roll_mean L) qs)))
      ''volatility_15m'' (Floats (rolling 15 (roll_std L) qs))"
  have len_ts: "length ts = n"
    using length_to_datetime [OF ts(2)] get_col_rectangular [OF rect ts(1)] by simp
  have len_pc: "col_len pc = n"
    using get_col_rectangular [OF rect ps(1)] by simp
  have len_idx: "length idx = n"
    using length_nargsort [OF sort] len_ts by (simp add: idx_def)
  have set_idx: "set idx = {..<n}"
    using set_nargsort [OF sort] len_ts by (simp add: idx_def)
  have price1: "get_col df1 ''price_usd'' = Inr (col_take idx pc)"
    by (simp add: df1_def get_col_take_rows get_col_set_col_other ps)
  have float1: "as_float (col_take idx pc) = Inr qs"
    unfolding qs_def using ps(2) by (rule as_float_col_take) (simp add: set_idx len_pc)
  have time1: "get_col df1 ''timestamp'' = Inr (Datetimes (map ((!) ts) idx))"
    by (simp add: df1_def get_col_take_rows get_col_set_col_same)
  have run: "derive_metrics L df = Inr out"
    by (simp add: derive_metrics_def and_then_def ts price1 float1 out_def cs_def
        flip: idx_def df1_def)
  have rect1: "rectangular n df1"
    using rectangular_take_rows [of idx] len_idx by (simp add: df1_def)
  have len_qs: "length qs = n" by (simp add: qs_def len_idx)
  have rect_out: "rectangular n out"
    unfolding out_def
    by (intro rectangular_set_col rect1)
      (simp_all add: cs_def length_pct_change length_rolling len_qs)
  have "get_col out ''timestamp'' = Inr (Datetimes (map ((!) ts) idx))"
    and "get_col out ''price_usd'' = Inr (col_take idx pc)"
    and "get_col out ''price_change_pct'' = Inr (Floats cs)"
    and "get_col out ''moving_avg_price'' = Inr (Floats (rolling 7 (roll_mean L) qs))"
    and "get_col out ''volatility_15m'' = Inr (Floats (rolling 15 (roll_std L) qs))"
    by (simp_all add: out_def get_col_set_col_other get_col_set_col_same price1 time1)
  moreover have "get_col out name = Inr (col_take idx col)"
    if "name \<notin> derived_names" "get_col df name = Inr col" for name col
    using that
    by (simp add: out_def df1_def derived_names_def get_col_set_col_other get_col_take_rows)
  ultimately show ?thesis
    using run rect_out float1 unfolding cs_def qs_def idx_def by blast
qed

lemma sorted_prices:
  assumes ts: "get_col df ''timestamp'' = Inr c" "to_datetime L c = Inr ts"
    and ps: "get_col df ''price_usd'' = Inr pc" "as_float pc = Inr ps"
    and rect: "rectangular n df"
    and sort: "argsort_ok L ts"
  shows "length (map ((!) ps) (nargsort L ts)) = n"
    and "set (map ((!) ps) (nargsort L ts)) = set ps"
proof -
  have len_ts: "length ts = n"
    using length_to_datetime [OF ts(2)] get_col_rectangular [OF rect ts(1)] by simp
  have len_ps: "length ps = n"
    using get_col_rectangular [OF rect ps(1)] length_as_float [OF ps(2)] by simp
  show "length (map ((!) ps) (nargsort L ts)) = n"
    using length_nargsort [OF sort] len_ts by simp
  have "mset (nargsort L ts) = mset [0..<length ps]"
    using mset_nargsort [OF sort] len_ts len_ps by simp
  then have "mset (map ((!) ps) (nargsort L ts)) = mset ps"
    by (rule mset_map_nth_perm)
  then show "set (map ((!) ps) (nargsort L ts)) = set ps"
    by (rule mset_eq_setD)
qed

section \<open>Failures inside transform\_bitcoin\_data\<close>

lemma traverse_fails:
  "x \<in> set xs \<Longrightarrow> f x = Inl e \<Longrightarrow> \<exists>e'. traverse f xs = Inl e'"
  by (induction xs) (auto split: sum.splits)

lemma transform_on_failure:
  assumes "and_then (read_csv w input_file) (derive_metrics L) = Inl e"
  shows "transform_bitcoin_data L input_file output_file w
           = Returned () (print (ErrorLine ''Error during transformation: '' e) w)"
  using assms by (simp add: transform_bitcoin_data_def)

lemma files_print: "files (print l w) = files w"
  by (simp add: print_def)

lemma absent_input_fails:
  "files w input_file = None \<Longrightarrow>
     and_then (read_csv w input_file) (derive_metrics L) = Inl (FileNotFoundError input_file)"
  by (simp add: read_csv_def and_then_def)

lemma unparseable_timestamp_fails:
  assumes "read_csv w input_file = Inr df" "get_col df ''timestamp'' = Inr (Objects cs)"
    "Some s \<in> set cs" "strptime L s = None"
  shows "and_then (read_csv w input_file) (derive_metrics L) = Inl (ValueError Unparseable_Datetime)"
proof -
  let ?f = "\<lambda>c. case c of None \<Rightarrow> Inr None
     | Some s \<Rightarrow> (case strptime L s of None \<Rightarrow> Inl (ValueError Unparseable_Datetime) | Some t \<Rightarrow> Inr (Some t))"
  have one: "?f c = Inl e \<Longrightarrow> e = ValueError Unparseable_Datetime" for c e
    by (auto split: option.splits)
  have all: "traverse ?f xs = Inl e \<Longrightarrow> e = ValueError Unparseable_Datetime" for xs e
    by (induction xs) (auto split: sum.splits option.splits)
  have "?f (Some s) = Inl (ValueError Unparseable_Datetime)"
    using assms(4) by simp
  with assms(3) obtain e' where "traverse ?f cs = Inl e'"
    using traverse_fails [of "Some s" cs ?f] by blast
  with all have "to_datetime L (Objects cs) = Inl (ValueError Unparseable_Datetime)"
    by auto
  then show ?thesis
    using assms(1,2) by (simp add: and_then_def derive_metrics_def)
qed

lemma missing_price_fails:
  assumes "read_csv w input_file = Inr df" "map_of df ''price_usd'' = None"
  shows "\<exists>e. and_then (read_csv w input_file) (derive_metrics L) = Inl e"
proof -
  have "get_col df ''price_usd'' = Inl (KeyError ''price_usd'')"
    using assms(2) by (simp add: get_col_def)
  then have "get_col (take_rows idx (set_col df ''timestamp'' c)) ''price_usd''
      = Inl (KeyError ''price_usd'')" for idx c
    by (simp add: get_col_take_rows get_col_set_col_other)
  then show ?thesis
    using assms(1)
    by (auto simp: and_then_def derive_metrics_def Let_def split: sum.splits)
qed

lemma transform_returns: "raised (transform_bitcoin_data L input_file output_file w) = None"
  by (simp add: transform_bitcoin_data_def split: sum.splits)

lemma transform_other_files:
  "p \<noteq> output_file \<Longrightarrow>
     files (world_of (transform_bitcoin_data L input_file output_file w)) p = files w p"
  by (simp add: transform_bitcoin_data_def print_def to_csv_def split: sum.splits)

lemma transform_on_success:
  assumes "and_then (read_csv w input_file) (derive_metrics L) = Inr out"
  shows "files (world_of (transform_bitcoin_data L input_file output_file w)) output_file
           = Some (CSV out)"
  using assms by (simp add: transform_bitcoin_data_def print_def to_csv_def)

section \<open>The order sort\_values leaves\<close>

lemma non_nan_idx_nth:
  assumes "j < length (non_nan_idx ts)"
  shows "ts ! (non_nan_idx ts ! j) = Some (non_nans ts ! j)"
proof -
  have "non_nan_idx ts ! j \<in> set (non_nan_idx ts)" using assms by (rule nth_mem)
  then have "ts ! (non_nan_idx ts ! j) \<noteq> None" by (simp add: non_nan_idx_def)
  then show ?thesis using assms by (auto simp: non_nans_def)
qed

lemma nan_idx_values: "map ((!) ts) (nan_idx ts) = replicate (length (nan_idx ts)) None"
  by (simp add: map_replicate_const [symmetric] nan_idx_def cong: map_cong)

lemma sorted_wrt_na_last:
  assumes "sorted xs"
  shows "sorted_wrt na_last_le (map Some xs @ replicate k None)"
proof -
  have "sorted_wrt na_last_le (map Some xs)"
    using assms by (simp add: sorted_wrt_map na_last_le_def)
  moreover have "sorted_wrt na_last_le (replicate k None :: int option list)"
    by (induction k) (auto simp: na_last_le_def)
  ultimately show ?thesis
    by (auto simp: sorted_wrt_append na_last_le_def)
qed

lemma nargsort_sorted:
  assumes "argsort_ok L ts"
  shows "sorted_wrt na_last_le (map ((!) ts) (nargsort L ts))"
proof -
  let ?ks = "non_nans ts" and ?p = "argsort L (non_nans ts)"
  from assms have perm: "mset ?p = mset [0..<length ?ks]" and srt: "sorted (map ((!) ?ks) ?p)"
    by (simp_all add: argsort_ok_def sorting_indexer_def)
  have "set ?p = {..<length ?ks}"
    using arg_cong [OF perm, of set_mset] by (simp add: lessThan_atLeast0)
  then have "\<forall>j\<in>set ?p. j < length (non_nan_idx ts)"
    by (simp add: length_non_nans)
  then have "map ((!) ts) (map ((!) (non_nan_idx ts)) ?p) = map Some (map ((!) ?ks) ?p)"
    by (simp add: non_nan_idx_nth)
  then have "map ((!) ts) (nargsort L ts)
      = map Some (map ((!) ?ks) ?p) @ replicate (length (nan_idx ts)) None"
    by (simp add: nargsort_def nan_idx_values)
  with srt show ?thesis by (simp only: sorted_wrt_na_last)
qed

section \<open>The steps of main\<close>

lemma and_then_Inr_iff: "and_then r f = Inr y \<longleftrightarrow> (\<exists>x. r = Inr x \<and> f x = Inr y)"
  by (cases r) (simp_all add: and_then_def)

lemma files_to_csv: "files (to_csv df path w) = (files w)(path \<mapsto> CSV df)"
  by (simp add: to_csv_def)

lemma files_savefig: "files (savefig fig path w) = (files w)(path \<mapsto> PNG fig)"
  by (simp add: savefig_def)

lemma run_sarima_Returned:
  "run_sarima_forecast L df steps w = Returned sarima_df w' \<Longrightarrow>
     sarima_forecast L df steps = Inr sarima_df
     \<and> files w' = (files w)(''forecast_sarima.csv'' \<mapsto> CSV sarima_df)"
  by (auto simp: run_sarima_forecast_def files_print files_to_csv split: sum.splits)

lemma run_sarima_Raised:
  "run_sarima_forecast L df steps w = Raised e w' \<Longrightarrow> w' = w"
  by (auto simp: run_sarima_forecast_def split: sum.splits)

lemma future_dates:
  assumes "0 < freq"
  shows "take periods (filter (\<lambda>d. last_date < d) (date_range last_date (periods + 1) freq))
           = map (\<lambda>i. last_date + (int i + 1) * freq) [0..<periods]"
proof -
  have "date_range last_date (periods + 1) freq
      = last_date # map (\<lambda>i. last_date + (int i + 1) * freq) [0..<periods]"
    by (simp add: date_range_def upt_conv_Cons map_Suc_upt [symmetric] del: upt_Suc)
  moreover have "filter (\<lambda>d. last_date < d) (map (\<lambda>i. last_date + (int i + 1) * freq) [0..<periods])
      = map (\<lambda>i. last_date + (int i + 1) * freq) [0..<periods]"
    using assms by (intro filter_True) (auto simp: add_pos_nonneg)
  ultimately show ?thesis by simp
qed

lemma make_future_dataframe_minute:
  "make_future_dataframe hist periods minute
     = hist @ map (\<lambda>i. Max (set hist) + (int i + 1) * minute) [0..<periods]"
  unfolding make_future_dataframe_def Let_def
  by (subst future_dates) (simp_all add: minute_def)

lemma run_prophet_Returned:
  "run_prophet_forecast L df periods freq w = Returned forecast w' \<Longrightarrow>
     prophet_forecast L df periods freq = Inr forecast
     \<and> files w' = (files w)(''forecast_prophet.csv'' \<mapsto> CSV forecast)"
  by (auto simp: run_prophet_forecast_def files_print files_to_csv split: sum.splits)

lemma run_prophet_Raised:
  "run_prophet_forecast L df periods freq w = Raised e w' \<Longrightarrow> w' = w"
  by (auto simp: run_prophet_forecast_def split: sum.splits)

lemma run_decompose_Raised:
  "run_seasonal_decompose L df period w = Raised e w' \<Longrightarrow> w' = w"
  by (auto simp: run_seasonal_decompose_def split: sum.splits)

section \<open>Resampling\<close>

lemma non_nans_map_Some: "non_nans (map Some ts) = ts"
proof -
  have "non_nan_idx (map Some ts) = [0..<length ts]"
    by (simp add: non_nan_idx_def)
  moreover have "map (\<lambda>i. the (map Some ts ! i)) [0..<length ts] = ts"
    by (rule nth_equalityI) simp_all
  ultimately show ?thesis
    by (simp add: non_nans_def)
qed

lemma ffill_from_all_nan:
  "k < length xs \<Longrightarrow> \<forall>m\<le>k. xs ! m = NaN \<Longrightarrow> ffill_from c xs ! k = c"
proof (induction xs arbitrary: k c)
  case Nil
  then show ?case by simp
next
  case (Cons x xs)
  from Cons.prems(2) have x: "x = NaN" by (metis le0 nth_Cons_0)
  show ?case
  proof (cases k)
    case 0
    then show ?thesis by (simp add: x)
  next
    case (Suc k')
    have "\<forall>m\<le>k'. xs ! m = NaN"
      using Cons.prems(2) Suc by (metis Suc_le_mono nth_Cons_Suc)
    with Cons.IH [of k' c] Cons.prems(1) Suc show ?thesis by (simp add: x)
  qed
qed

lemma ffill_from_holds:
  "k < length xs \<Longrightarrow> j \<le> k \<Longrightarrow> xs ! j \<noteq> NaN \<Longrightarrow> \<forall>m. j < m \<and> m \<le> k \<longrightarrow> xs ! m = NaN \<Longrightarrow>
     ffill_from c xs ! k = xs ! j"
proof (induction xs arbitrary: k j c)
  case Nil
  then show ?case by simp
next
  case (Cons x xs)
  show ?case
  proof (cases j)
    case 0
    with Cons.prems(3) have x: "x \<noteq> NaN" by simp
    show ?thesis
    proof (cases k)
      case 0
      with \<open>j = 0\<close> x show ?thesis by simp
    next
      case (Suc k')
      have "\<forall>m\<le>k'. xs ! m = NaN"
      proof (intro allI impI)
        fix m assume "m \<le> k'"
        with Cons.prems(4) [rule_format, of "Suc m"] \<open>j = 0\<close> Suc show "xs ! m = NaN" by simp
      qed
      with ffill_from_all_nan [of k' xs x] Cons.prems(1) Suc \<open>j = 0\<close> x show ?thesis by simp
    qed
  next
    case (Suc j')
    with Cons.prems(2) obtain k' where k: "k = Suc k'" by (cases k) auto
    have "\<forall>m. j' < m \<and> m \<le> k' \<longrightarrow> xs ! m = NaN"
    proof (intro allI impI)
      fix m assume "j' < m \<and> m \<le> k'"
      with Cons.prems(4) [rule_format, of "Suc m"] Suc k show "xs ! m = NaN" by simp
    qed
    with Cons.IH [of k' j'] Cons.prems(1,2,3) Suc k show ?thesis by simp
  qed
qed

lemma slot_lookup:
  assumes "length vals = length ts" "distinct ts"
  shows "(case map_of (zip (map Some ts) [0..<length ts]) (Some g) of
            None \<Rightarrow> NaN | Some j \<Rightarrow> vals ! j)
         = (case map_of (zip ts vals) g of None \<Rightarrow> NaN | Some v \<Rightarrow> v)"
proof (cases "g \<in> set ts")
  case True
  then obtain j where j: "j < length ts" "ts ! j = g"
    by (auto simp: in_set_conv_nth)
  have "map_of (zip (map Some ts) [0..<length ts]) (map Some ts ! j) = Some ([0..<length ts] ! j)"
    using assms(2) j(1) by (intro map_of_zip_nth) (simp_all add: distinct_map)
  moreover have "map_of (zip ts vals) (ts ! j) = Some (vals ! j)"
    using assms j(1) by (intro map_of_zip_nth) simp_all
  ultimately show ?thesis using j by simp
next
  case False
  then have "map_of (zip (map Some ts) [0..<length ts]) (Some g) = None"
    by (subst map_of_zip_is_None) auto
  moreover from False assms(1) have "map_of (zip ts vals) g = None"
    by (subst map_of_zip_is_None) auto
  ultimately show ?thesis by (simp only: option.case)
qed

lemma resample_on_timestamps:
  assumes tc: "get_col df ''timestamp'' = Inr (Datetimes (map Some ts))"
    and pc: "get_col df ''price_usd'' = Inr pc" "as_float pc = Inr vals"
    and len: "length vals = length ts" and ne: "ts \<noteq> []" and dist: "distinct ts"
  shows "resample df
           = Inr (zip (date_range_to (Min (set ts)) (Max (set ts)) minute)
                    (ffill (map (\<lambda>g. case map_of (zip ts vals) g of None \<Rightarrow> NaN | Some v \<Rightarrow> v)
                              (date_range_to (Min (set ts)) (Max (set ts)) minute))))"
proof -
  let ?dti = "date_range_to (Min (set ts)) (Max (set ts)) minute"
  have "asfreq (map Some ts) minute
      = Inr (map (\<lambda>g. (g, map_of (zip (map Some ts) [0..<length ts]) (Some g))) ?dti)"
    using ne dist by (simp add: asfreq_def non_nans_map_Some distinct_map Let_def)
  then show ?thesis
    using tc pc len dist
    by (simp add: resample_def and_then_def comp_def slot_lookup case_prod_unfold)
qed

lemma on_grid:
  assumes "0 < f" "lo \<le> t" "(t - lo) mod f = 0"
  shows "t = lo + int (nat ((t - lo) div f)) * f"
proof -
  have "0 \<le> (t - lo) div f" using assms(1,2) by (simp add: pos_imp_zdiv_nonneg_iff)
  moreover have "(t - lo) div f * f = t - lo" using assms(3) by (simp add: mod_0_imp_dvd)
  ultimately show ?thesis by simp
qed

lemma nth_date_range_to:
  "k < nat ((hi - lo) div f) + 1 \<Longrightarrow> date_range_to lo hi f ! k = lo + int k * f"
  by (simp add: date_range_to_def date_range_def del: upt_Suc)

lemma length_date_range_to: "length (date_range_to lo hi f) = nat ((hi - lo) div f) + 1"
  by (simp add: date_range_to_def date_range_def)

lemma resampled_value:
  fixes ts :: "int list" and vals :: "fl list"
  defines "lo \<equiv> Min (set ts)" and "hi \<equiv> Max (set ts)"
  defines "look \<equiv> \<lambda>g. case map_of (zip ts vals) g of None \<Rightarrow> NaN | Some v \<Rightarrow> v"
  assumes len: "length vals = length ts" and ne: "ts \<noteq> []" and dist: "distinct ts"
    and nonan: "NaN \<notin> set vals"
    and grid: "\<forall>t\<in>set ts. (t - lo) mod minute = 0"
    and k: "k < nat ((hi - lo) div minute) + 1"
  shows "ffill (map look (date_range_to lo hi minute)) ! k
           = last_observed (zip ts vals) (lo + int k * minute)"
proof -
  define g where "g = lo + int k * minute"
  define earlier where "earlier = filter (\<lambda>t. t \<le> g) ts"
  define T where "T = Max (set earlier)"
  define q where "q = nat ((T - lo) div minute)"
  let ?dti = "date_range_to lo hi minute"
  have m0: "0 < minute" by (simp add: minute_def)
  have lo_in: "lo \<in> set ts" and lo_le: "\<And>t. t \<in> set ts \<Longrightarrow> lo \<le> t"
    using ne by (simp_all add: lo_def)
  have "lo \<le> g" using m0 by (simp add: g_def)
  with lo_in have "lo \<in> set earlier" by (simp add: earlier_def)
  then have ne_earlier: "earlier \<noteq> []" by auto
  then have "T \<in> set earlier" unfolding T_def by (intro Max_in) simp_all
  then have T_in: "T \<in> set ts" and T_le: "T \<le> g" by (simp_all add: earlier_def)
  have T_max: "t \<le> T" if "t \<in> set ts" "t \<le> g" for t
    unfolding T_def using that by (intro Max_ge) (simp_all add: earlier_def)
  have look_in: "look t \<noteq> NaN" if "t \<in> set ts" for t
  proof -
    from that obtain j where j: "j < length ts" "ts ! j = t" by (auto simp: in_set_conv_nth)
    have "map_of (zip ts vals) (ts ! j) = Some (vals ! j)"
      using len dist j(1) by (intro map_of_zip_nth) simp_all
    moreover have "vals ! j \<in> set vals" using j(1) len by simp
    ultimately show ?thesis using nonan j(2) by (auto simp: look_def)
  qed
  have look_out: "look t = NaN" if "t \<notin> set ts" for t
  proof -
    from that len have "map_of (zip ts vals) t = None"
      by (subst map_of_zip_is_None) auto
    then show ?thesis by (simp only: look_def option.case)
  qed
  have spec: "last_observed (zip ts vals) g = look T"
    using ne_earlier len
    by (simp add: last_observed_def Let_def look_def T_def earlier_def)
  have T_eq: "T = lo + int q * minute"
    unfolding q_def using m0 lo_le [OF T_in] grid T_in by (intro on_grid) auto
  have "int q * minute \<le> int k * minute"
    using T_le by (simp add: T_eq g_def)
  then have q_le: "q \<le> k" using m0 by simp
  have nth: "?dti ! i = lo + int i * minute" if "i \<le> k" for i
    using that k by (intro nth_date_range_to) simp
  have len_dti: "k < length ?dti" using k by (simp add: length_date_range_to)
  have gap: "map look ?dti ! i = NaN" if "q < i \<and> i \<le> k" for i
  proof -
    have "?dti ! i \<notin> set ts"
    proof
      assume "?dti ! i \<in> set ts"
      moreover have "?dti ! i \<le> g" using that m0 by (simp add: nth g_def)
      ultimately have "?dti ! i \<le> T" by (rule T_max)
      then have "int i * minute \<le> int q * minute" using that by (simp add: nth T_eq)
      then have "i \<le> q" using m0 by simp
      with that show False by simp
    qed
    then show ?thesis using that len_dti by (simp add: look_out)
  qed
  have "map look ?dti ! q = look T"
    using q_le len_dti by (simp add: nth T_eq)
  moreover from this have "map look ?dti ! q \<noteq> NaN" using look_in [OF T_in] by simp
  moreover have "k < length (map look ?dti)" using len_dti by simp
  ultimately have "ffill (map look ?dti) ! k = look T"
    unfolding ffill_def using q_le gap ffill_from_holds [of k "map look ?dti" q NaN] by simp
  with spec show ?thesis by (simp add: g_def)
qed

section \<open>The example sort is a sort\<close>

lemma sort_key_indexer:
  assumes "mset zs = mset (zip ks [0..<length ks])"
  shows "sorting_indexer ks (map snd (sort_key fst zs))"
proof -
  have pairs: "ks ! snd p = fst p" if "p \<in> set zs" for p
  proof -
    from that assms have "p \<in> set (zip ks [0..<length ks])"
      by (metis set_mset_mset)
    then show ?thesis by (auto simp: in_set_zip)
  qed
  have "mset (map snd (sort_key fst zs)) = image_mset snd (mset zs)"
    by simp
  also have "\<dots> = mset (map snd (zip ks [0..<length ks]))"
    unfolding assms by (simp only: mset_map)
  also have "map snd (zip ks [0..<length ks]) = [0..<length ks]"
    by (rule map_snd_zip) simp
  finally have perm: "mset (map snd (sort_key fst zs)) = mset [0..<length ks]" .
  have "map ((!) ks) (map snd (sort_key fst zs)) = map fst (sort_key fst zs)"
    using pairs by simp
  then have "sorted (map ((!) ks) (map snd (sort_key fst zs)))"
    by (simp only: sorted_sort_key)
  with perm show ?thesis by (simp add: sorting_indexer_def del: mset_upt)
qed

lemma stable_argsort_sorts: "sorting_indexer ks (stable_argsort ks)"
  unfolding stable_argsort_def by (rule sort_key_indexer) simp

lemma example_library_argsort_ok: "argsort_ok example_library ts"
  by (simp add: argsort_ok_def example_library_def stable_argsort_sorts)

section \<open>A table that is sorted already, and exact arithmetic\<close>

lemma sorting_indexer_sorted_input:
  assumes "sorting_indexer ks p" "sorted_wrt (<) ks"
  shows "p = [0..<length ks]"
proof -
  from assms(1) have perm: "mset p = mset [0..<length ks]" and srt: "sorted (map ((!) ks) p)"
    by (simp_all add: sorting_indexer_def)
  from assms(2) have "sorted ks" and dist: "distinct ks"
    by (simp_all add: strict_sorted_iff)
  have "mset (map ((!) ks) p) = mset ks"
    using perm by (rule mset_map_nth_perm)
  with srt have "sort ks = map ((!) ks) p"
    by (intro properties_for_sort) simp_all
  with \<open>sorted ks\<close> have "map ((!) ks) p = map ((!) ks) [0..<length ks]"
    by (simp add: sorted_sort_id map_nth)
  moreover have "set p = {0..<length ks}"
    using perm [THEN arg_cong, of set_mset] by simp
  then have "inj_on ((!) ks) (set p \<union> set [0..<length ks])"
    using dist by (simp add: inj_on_nth)
  ultimately show ?thesis
    by (simp only: inj_on_map_eq_map)
qed

lemma non_nans_no_NaT:
  assumes "None \<notin> set ts"
  shows "non_nan_idx ts = [0..<length ts]" "nan_idx ts = []" "non_nans ts = map the ts"
proof -
  have all: "ts ! i \<noteq> None" if "i < length ts" for i
    using assms that by (metis nth_mem)
  show idx: "non_nan_idx ts = [0..<length ts]"
    unfolding non_nan_idx_def by (rule filter_True) (simp add: all)
  show "nan_idx ts = []"
    unfolding nan_idx_def by (rule filter_False) (simp add: all)
  show "non_nans ts = map the ts"
    unfolding non_nans_def idx by (rule nth_equalityI) simp_all
qed

lemma nargsort_sorted_input:
  assumes "argsort_ok L ts" "None \<notin> set ts" "sorted_wrt (<) (map the ts)"
  shows "nargsort L ts = [0..<length ts]"
proof -
  note nn = non_nans_no_NaT [OF assms(2)]
  from assms(1) have "sorting_indexer (map the ts) (argsort L (map the ts))"
    by (simp add: argsort_ok_def nn)
  then have "argsort L (map the ts) = [0..<length ts]"
    using assms(3) by (auto dest: sorting_indexer_sorted_input)
  then show ?thesis
    using map_nth [of "[0..<length ts]"] by (simp add: nargsort_def nn)
qed

lemma price_change_exact:
  assumes "b \<noteq> 0"
    and "round_double (a / b) = Fin (a / b)"
    and "round_double (a / b - 1) = Fin (a / b - 1)"
    and "round_double ((a / b - 1) * 100) = Fin ((a / b - 1) * 100)"
  shows "fmul (fillna 0 (fsub (fdiv (Fin a) (Fin b)) (Fin 1))) (Fin 100) = Fin ((a - b) / b * 100)"
proof -
  have quotient: "fin_val (fdiv (Fin a) (Fin b)) = a / b" "fdiv (Fin a) (Fin b) \<noteq> NaN"
    "\<not> is_inf (fdiv (Fin a) (Fin b))"
    using assms(1,2) by (auto simp: fdiv_def zero_of_def)
  have "fsub (fdiv (Fin a) (Fin b)) (Fin 1) = Fin (a / b - 1)"
    using quotient assms(3) by (auto simp: fsub_def)
  then have "fmul (fillna 0 (fsub (fdiv (Fin a) (Fin b)) (Fin 1))) (Fin 100) = Fin ((a / b - 1) * 100)"
    using assms(4) by (auto simp: fmul_def zero_of_def)
  also have "(a / b - 1) * 100 = (a - b) / b * 100"
    using assms(1) by (simp add: field_simps)
  finally show ?thesis .
qed

lemma fillna_zero_times: "fmul (fillna 0 NaN) (Fin 100) = Fin 0"
  by (simp add: fmul_def zero_of_def)

section \<open>The exception handler of transform\_bitcoin\_data\<close>

text \<open>
  Claim C10. Whenever a step between reading the input and writing the output fails,
  \<open>transform_bitcoin_data\<close> returns normally and leaves every file as it was, the
  output written before included. This holds in particular when the input file is
  absent, when a timestamp cannot be parsed and when the price column is missing.
\<close>

theorem failed_transform_writes_nothing:
  "(and_then (read_csv w input_file) (derive_metrics L) = Inl e \<longrightarrow>
      raised (transform_bitcoin_data L input_file output_file w) = None
      \<and> files (world_of (transform_bitcoin_data L input_file output_file w)) = files w)
   \<and> (files w input_file = None \<longrightarrow>
      raised (transform_bitcoin_data L input_file output_file w) = None
      \<and> files (world_of (transform_bitcoin_data L input_file output_file w)) = files w)
   \<and> (read_csv w input_file = Inr df \<and> get_col df ''timestamp'' = Inr (Objects cs)
        \<and> Some s \<in> set cs \<and> strptime L s = None \<longrightarrow>
      raised (transform_bitcoin_data L input_file output_file w) = None
      \<and> files (world_of (transform_bitcoin_data L input_file output_file w)) = files w)
   \<and> (read_csv w input_file = Inr df \<and> map_of df ''price_usd'' = None \<longrightarrow>
      raised (transform_bitcoin_data L input_file output_file w) = None
      \<and> files (world_of (transform_bitcoin_data L input_file output_file w)) = files w)"
proof -
  have fail: "raised (transform_bitcoin_data L input_file output_file w) = None
      \<and> files (world_of (transform_bitcoin_data L input_file output_file w)) = files w"
    if "and_then (read_csv w input_file) (derive_metrics L) = Inl e'" for e'
    using transform_on_failure [OF that] by (simp add: files_print)
  show ?thesis
    using fail absent_input_fails [of w input_file L]
      unparseable_timestamp_fails [of w input_file df cs s L]
      missing_price_fails [of w input_file df L]
    by blast
qed

theorem failed_transform_writes_nothing_witness:
  "read_csv bad_world ''bitcoin_price_data.csv'' = Inr bad_table
   \<and> get_col bad_table ''timestamp'' = Inr (Objects [Some ''1970-01-01 00:00:00'', Some ''yesterday''])
   \<and> strptime example_library ''yesterday'' = None
   \<and> raised (transform_bitcoin_data example_library ''bitcoin_price_data.csv''
               ''bitcoin_price_transformed.csv'' bad_world) = None
   \<and> files (world_of (transform_bitcoin_data example_library ''bitcoin_price_data.csv''
               ''bitcoin_price_transformed.csv'' bad_world)) ''bitcoin_price_transformed.csv''
       = Some (CSV example_table)"
proof -
  have h1: "read_csv bad_world ''bitcoin_price_data.csv'' = Inr bad_table"
    by (simp add: read_csv_def bad_world_def)
  have h2: "get_col bad_table ''timestamp''
      = Inr (Objects [Some ''1970-01-01 00:00:00'', Some ''yesterday''])"
    by code_simp
  have h3: "Some ''yesterday'' \<in> set [Some ''1970-01-01 00:00:00'', Some ''yesterday'']"
    by simp
  have h4: "strptime example_library ''yesterday'' = None"
    by code_simp
  have old: "files bad_world ''bitcoin_price_transformed.csv'' = Some (CSV example_table)"
    by (simp add: bad_world_def)
  from failed_transform_writes_nothing [of bad_world "''bitcoin_price_data.csv''" example_library
      _ "''bitcoin_price_transformed.csv''" bad_table _ "''yesterday''"] h1 h2 h3 h4
  have "raised (transform_bitcoin_data example_library ''bitcoin_price_data.csv''
               ''bitcoin_price_transformed.csv'' bad_world) = None
      \<and> files (world_of (transform_bitcoin_data example_library ''bitcoin_price_data.csv''
               ''bitcoin_price_transformed.csv'' bad_world)) = files bad_world"
    by blast
  with h1 h2 h4 old show ?thesis by simp
qed

section \<open>What transform\_bitcoin\_data does to the world\<close>

text \<open>
  Claim C6 says that the computation of the rolling metrics is pure and fails exactly on
  an empty series. On a table without rows the code does not fail: it returns normally
  and writes the derived table, which has no rows either; and a file that was not there
  before is there afterwards.
\<close>

theorem empty_series_is_written:
  "read_csv empty_world ''bitcoin_price_data.csv'' = Inr empty_table
   \<and> files empty_world ''bitcoin_price_transformed.csv'' = None
   \<and> raised (transform_bitcoin_data example_library ''bitcoin_price_data.csv''
               ''bitcoin_price_transformed.csv'' empty_world) = None
   \<and> files (world_of (transform_bitcoin_data example_library ''bitcoin_price_data.csv''
               ''bitcoin_price_transformed.csv'' empty_world)) ''bitcoin_price_transformed.csv''
       = Some (CSV [(''timestamp'', Datetimes []), (''price_usd'', Objects []),
                    (''market_cap_usd'', Objects []), (''price_change_pct'', Floats []),
                    (''moving_avg_price'', Floats []), (''volatility_15m'', Floats [])])"
  by code_simp

text \<open>
  Claim C6 as amended. \<open>transform_bitcoin_data\<close> never raises, and of the files it
  changes the output file only. For every table, with rows or without, whose
  timestamps parse and whose prices are numbers, it writes the derived table, and there
  the windows that are not full hold NaN: \<open>moving_avg_price\<close> in the rows \<open>i < 6\<close>,
  \<open>volatility_15m\<close> in the rows \<open>i < 14\<close>.
\<close>

theorem transform_never_raises:
  "raised (transform_bitcoin_data L input_file output_file w) = None
   \<and> (\<forall>p. p \<noteq> output_file \<longrightarrow>
         files (world_of (transform_bitcoin_data L input_file output_file w)) p = files w p)
   \<and> (read_csv w input_file = Inr df
        \<and> get_col df ''timestamp'' = Inr c \<and> to_datetime L c = Inr ts
        \<and> get_col df ''price_usd'' = Inr pc \<and> as_float pc = Inr ps
        \<and> rectangular n df \<and> argsort_ok L ts \<longrightarrow>
       (\<exists>out ma vol.
          files (world_of (transform_bitcoin_data L input_file output_file w)) output_file
            = Some (CSV out)
          \<and> rectangular n out
          \<and> get_col out ''moving_avg_price'' = Inr (Floats ma)
          \<and> get_col out ''volatility_15m'' = Inr (Floats vol)
          \<and> (\<forall>i<n. i < 6 \<longrightarrow> ma ! i = NaN)
          \<and> (\<forall>i<n. i < 14 \<longrightarrow> vol ! i = NaN)))"
proof (intro conjI allI impI)
  show "raised (transform_bitcoin_data L input_file output_file w) = None"
    by (rule transform_returns)
next
  fix p assume "p \<noteq> output_file"
  then show "files (world_of (transform_bitcoin_data L input_file output_file w)) p = files w p"
    by (rule transform_other_files)
next
  assume h: "read_csv w input_file = Inr df
        \<and> get_col df ''timestamp'' = Inr c \<and> to_datetime L c = Inr ts
        \<and> get_col df ''price_usd'' = Inr pc \<and> as_float pc = Inr ps
        \<and> rectangular n df \<and> argsort_ok L ts"
  then have rd: "read_csv w input_file = Inr df"
    and ts: "get_col df ''timestamp'' = Inr c" "to_datetime L c = Inr ts"
    and ps: "get_col df ''price_usd'' = Inr pc" "as_float pc = Inr ps"
    and rect: "rectangular n df" and sort: "argsort_ok L ts"
    by simp_all
  define qs where "qs = map ((!) ps) (nargsort L ts)"
  from derive_metrics_run [OF ts ps rect sort] obtain out
    where run: "derive_metrics L df = Inr out" and rect_out: "rectangular n out"
      and ma_out: "get_col out ''moving_avg_price'' = Inr (Floats (rolling 7 (roll_mean L) qs))"
      and vol_out: "get_col out ''volatility_15m'' = Inr (Floats (rolling 15 (roll_std L) qs))"
    unfolding qs_def by blast
  have len_qs: "length qs = n"
    using sorted_prices(1) [OF ts ps rect sort] by (simp add: qs_def)
  have written: "files (world_of (transform_bitcoin_data L input_file output_file w)) output_file
      = Some (CSV out)"
    by (rule transform_on_success) (simp add: rd run and_then_def)
  have "rolling 7 (roll_mean L) qs ! i = NaN" if "i < n" "i < 6" for i
    using that by (simp add: rolling_partial len_qs)
  moreover have "rolling 15 (roll_std L) qs ! i = NaN" if "i < n" "i < 14" for i
    using that by (simp add: rolling_partial len_qs)
  ultimately show "\<exists>out ma vol.
          files (world_of (transform_bitcoin_data L input_file output_file w)) output_file
            = Some (CSV out)
          \<and> rectangular n out
          \<and> get_col out ''moving_avg_price'' = Inr (Floats ma)
          \<and> get_col out ''volatility_15m'' = Inr (Floats vol)
          \<and> (\<forall>i<n. i < 6 \<longrightarrow> ma ! i = NaN)
          \<and> (\<forall>i<n. i < 14 \<longrightarrow> vol ! i = NaN)"
    using written rect_out ma_out vol_out by blast
qed

theorem transform_never_raises_witness:
  "read_csv example_world ''bitcoin_price_data.csv'' = Inr example_table
   \<and> get_col example_table ''timestamp''
       = Inr (Objects [Some ''1970-01-01 00:01:00'', Some ''1970-01-01 00:00:00''])
   \<and> to_datetime example_library (Objects [Some ''1970-01-01 00:01:00'', Some ''1970-01-01 00:00:00''])
       = Inr [Some minute, Some 0]
   \<and> get_col example_table ''price_usd'' = Inr (Floats [Fin 110, Fin 100])
   \<and> as_float (Floats [Fin 110, Fin 100]) = Inr [Fin 110, Fin 100]
   \<and> rectangular 2 example_table
   \<and> argsort_ok example_library [Some minute, Some 0]
   \<and> (\<exists>out ma vol.
          files (world_of (transform_bitcoin_data example_library ''bitcoin_price_data.csv''
               ''bitcoin_price_transformed.csv'' example_world)) ''bitcoin_price_transformed.csv''
            = Some (CSV out)
          \<and> rectangular 2 out
          \<and> get_col out ''moving_avg_price'' = Inr (Floats ma)
          \<and> get_col out ''volatility_15m'' = Inr (Floats vol)
          \<and> (\<forall>i<2. i < 6 \<longrightarrow> ma ! i = NaN)
          \<and> (\<forall>i<2. i < 14 \<longrightarrow> vol ! i = NaN))"
proof -
  have h0: "read_csv example_world ''bitcoin_price_data.csv'' = Inr example_table"
    by (simp add: read_csv_def example_world_def)
  have h1: "get_col example_table ''timestamp''
      = Inr (Objects [Some ''1970-01-01 00:01:00'', Some ''1970-01-01 00:00:00''])"
    by code_simp
  have h2: "to_datetime example_library (Objects [Some ''1970-01-01 00:01:00'', Some ''1970-01-01 00:00:00''])
      = Inr [Some minute, Some 0]"
    by code_simp
  have h3: "get_col example_table ''price_usd'' = Inr (Floats [Fin 110, Fin 100])"
    by code_simp
  have h3': "as_float (Floats [Fin 110, Fin 100]) = Inr [Fin 110, Fin 100]"
    by simp
  have h4: "rectangular 2 example_table"
    by code_simp
  have h6: "argsort_ok example_library [Some minute, Some 0]"
    by code_simp
  from transform_never_raises [of example_library "''bitcoin_price_data.csv''"
      "''bitcoin_price_transformed.csv''" example_world example_table
      "Objects [Some ''1970-01-01 00:01:00'', Some ''1970-01-01 00:00:00'']"
      "[Some minute, Some 0]" "Floats [Fin 110, Fin 100]" "[Fin 110, Fin 100]" 2]
    h0 h1 h2 h3 h3' h4 h6
  show ?thesis by simp
qed

section \<open>The forecast tables\<close>

text \<open>
  Claim C2. Whenever \<open>run_prophet_forecast\<close> returns for the horizon \<open>periods\<close> (at
  the frequency of one minute), the table it returns and writes has the columns \<open>ds\<close>,
  \<open>yhat\<close>, \<open>moving_avg_price\<close> and \<open>volatility_15m\<close>, all of one length; its \<open>ds\<close>
  are the timestamps of the history (sorted, each once) followed by exactly \<open>periods\<close>
  timestamps, the \<open>i\<close>-th of them \<open>i + 1\<close> minutes after the last timestamp of the
  history: these are the only rows beyond it, and they are strictly increasing.
\<close>

theorem prophet_forecast_rows:
  assumes "run_prophet_forecast L df periods minute w = Returned forecast w'"
  shows "\<exists>tc ts hist fut yhat ma vol.
           get_col df ''timestamp'' = Inr tc \<and> to_datetime L tc = Inr ts
           \<and> None \<notin> set ts \<and> hist \<noteq> [] \<and> set hist = the ` set ts
           \<and> sorted hist \<and> distinct hist
           \<and> get_col forecast ''ds'' = Inr (Datetimes (map Some (hist @ fut)))
           \<and> get_col forecast ''yhat'' = Inr (Floats yhat)
           \<and> get_col forecast ''moving_avg_price'' = Inr (Floats ma)
           \<and> get_col forecast ''volatility_15m'' = Inr (Floats vol)
           \<and> length yhat = length hist + periods
           \<and> length ma = length hist + periods \<and> length vol = length hist + periods
           \<and> length fut = periods
           \<and> (\<forall>i<periods. fut ! i = Max (set hist) + (int i + 1) * minute)
           \<and> filter (\<lambda>d. Max (set hist) < d) (hist @ fut) = fut
           \<and> sorted_wrt (<) fut
           \<and> files w' ''forecast_prophet.csv'' = Some (CSV forecast)"
proof -
  from run_prophet_Returned [OF assms]
  have fc: "prophet_forecast L df periods minute = Inr forecast"
    and fs: "files w' = (files w)(''forecast_prophet.csv'' \<mapsto> CSV forecast)"
    by simp_all
  define fut_of where "fut_of hist = map (\<lambda>i. Max (set hist) + (int i + 1) * minute) [0..<periods]"
    for hist :: "int list"
  from fc obtain tc y ds model where tc: "get_col df ''timestamp'' = Inr tc"
    and ts: "to_datetime L tc = Inr ds" and "prophet_fit L ds y = Inr model"
    and nonull: "None \<notin> set ds" and nonempty: "ds \<noteq> []"
    and fdef: "forecast =
      [(''ds'', Datetimes (map Some (make_future_dataframe (sort (remdups (map the ds))) periods minute))),
       (''yhat'', Floats (map (\<lambda>t. Fin (model t))
          (make_future_dataframe (sort (remdups (map the ds))) periods minute))),
       (''moving_avg_price'', Floats (rolling 7 (roll_mean L) (map (\<lambda>t. Fin (model t))
          (make_future_dataframe (sort (remdups (map the ds))) periods minute)))),
       (''volatility_15m'', Floats (rolling 15 (roll_std L) (map (\<lambda>t. Fin (model t))
          (make_future_dataframe (sort (remdups (map the ds))) periods minute))))]"
    by (auto simp: prophet_forecast_def and_then_Inr_iff Let_def split: if_splits)
  define hist where "hist = sort (remdups (map the ds))"
  define fut where "fut = fut_of hist"
  define yhat where "yhat = map (\<lambda>t. Fin (model t)) (hist @ fut)"
  have future: "make_future_dataframe hist periods minute = hist @ fut"
    by (simp add: make_future_dataframe_minute fut_def fut_of_def)
  have forecast: "forecast = [(''ds'', Datetimes (map Some (hist @ fut))), (''yhat'', Floats yhat),
      (''moving_avg_price'', Floats (rolling 7 (roll_mean L) yhat)),
      (''volatility_15m'', Floats (rolling 15 (roll_std L) yhat))]"
    unfolding fdef hist_def [symmetric] future yhat_def [symmetric] by simp
  have "set hist = the ` set ds" "sorted hist" "distinct hist"
    by (simp_all add: hist_def)
  moreover from this(1) nonempty have "hist \<noteq> []"
    by (cases ds) auto
  ultimately have hist_props: "hist \<noteq> []" "set hist = the ` set ds" "sorted hist" "distinct hist"
    by simp_all
  have len_fut: "length fut = periods" by (simp add: fut_def fut_of_def)
  have nth_fut: "fut ! i = Max (set hist) + (int i + 1) * minute" if "i < periods" for i
    using that by (simp add: fut_def fut_of_def del: upt_Suc)
  have after: "Max (set hist) < d" if "d \<in> set fut" for d
    using that by (auto simp: fut_def fut_of_def minute_def add_pos_nonneg)
  have before: "\<not> Max (set hist) < d" if "d \<in> set hist" for d
    using that by (simp add: leD)
  have beyond: "filter (\<lambda>d. Max (set hist) < d) (hist @ fut) = fut"
    using after before by (simp add: filter_True filter_False)
  have incr: "sorted_wrt (<) fut"
    by (auto simp: sorted_wrt_iff_nth_less len_fut nth_fut minute_def)
  show ?thesis
    apply (rule exI [of _ tc], rule exI [of _ ds], rule exI [of _ hist], rule exI [of _ fut])
    apply (rule exI [of _ yhat], rule exI [of _ "rolling 7 (roll_mean L) yhat"])
    apply (rule exI [of _ "rolling 15 (roll_std L) yhat"])
    using tc ts nonull hist_props len_fut nth_fut beyond incr fs
    by (simp add: forecast get_col_def length_rolling yhat_def)
qed

theorem prophet_forecast_rows_witness:
  "run_prophet_forecast example_library example_table 2 minute example_world
     = Returned
         [(''ds'', Datetimes [Some 0, Some 60000000000, Some 120000000000, Some 180000000000]),
          (''yhat'', Floats [Fin 0, Fin 1, Fin 2, Fin 3]),
          (''moving_avg_price'', Floats [NaN, NaN, NaN, NaN]),
          (''volatility_15m'', Floats [NaN, NaN, NaN, NaN])]
         (print (Line ''-> Prophet step complete'')
           (print (Line ''Saved Prophet forecast to forecast_prophet.csv'')
             (to_csv
                [(''ds'', Datetimes [Some 0, Some 60000000000, Some 120000000000, Some 180000000000]),
                 (''yhat'', Floats [Fin 0, Fin 1, Fin 2, Fin 3]),
                 (''moving_avg_price'', Floats [NaN, NaN, NaN, NaN]),
                 (''volatility_15m'', Floats [NaN, NaN, NaN, NaN])]
                ''forecast_prophet.csv'' example_world)))
   \<and> (\<exists>hist fut.
         get_col
           [(''ds'', Datetimes [Some 0, Some 60000000000, Some 120000000000, Some 180000000000]),
            (''yhat'', Floats [Fin 0, Fin 1, Fin 2, Fin 3]),
            (''moving_avg_price'', Floats [NaN, NaN, NaN, NaN]),
            (''volatility_15m'', Floats [NaN, NaN, NaN, NaN])] ''ds''
           = Inr (Datetimes (map Some (hist @ fut)))
         \<and> hist \<noteq> [] \<and> sorted hist \<and> distinct hist
         \<and> length fut = 2
         \<and> (\<forall>i<2. fut ! i = Max (set hist) + (int i + 1) * minute)
         \<and> filter (\<lambda>d. Max (set hist) < d) (hist @ fut) = fut
         \<and> sorted_wrt (<) fut)"
proof -
  have ev: "prophet_forecast example_library example_table 2 minute
      = Inr [(''ds'', Datetimes [Some 0, Some 60000000000, Some 120000000000, Some 180000000000]),
          (''yhat'', Floats [Fin 0, Fin 1, Fin 2, Fin 3]),
          (''moving_avg_price'', Floats [NaN, NaN, NaN, NaN]),
          (''volatility_15m'', Floats [NaN, NaN, NaN, NaN])]"
    by code_simp
  have h: "run_prophet_forecast example_library example_table 2 minute example_world
     = Returned
         [(''ds'', Datetimes [Some 0, Some 60000000000, Some 120000000000, Some 180000000000]),
          (''yhat'', Floats [Fin 0, Fin 1, Fin 2, Fin 3]),
          (''moving_avg_price'', Floats [NaN, NaN, NaN, NaN]),
          (''volatility_15m'', Floats [NaN, NaN, NaN, NaN])]
         (print (Line ''-> Prophet step complete'')
           (print (Line ''Saved Prophet forecast to forecast_prophet.csv'')
             (to_csv
                [(''ds'', Datetimes [Some 0, Some 60000000000, Some 120000000000, Some 180000000000]),
                 (''yhat'', Floats [Fin 0, Fin 1, Fin 2, Fin 3]),
                 (''moving_avg_price'', Floats [NaN, NaN, NaN, NaN]),
                 (''volatility_15m'', Floats [NaN, NaN, NaN, NaN])]
                ''forecast_prophet.csv'' example_world)))"
    by (simp add: run_prophet_forecast_def ev)
  from prophet_forecast_rows [OF h] h show ?thesis by blast
qed

text \<open>
  Claim C3 says that the \<open>ds\<close> of the seasonal autoregressive forecast lie after the
  last timestamp of the history. The model is fitted on the price column alone, which
  carries row numbers and no timestamps, so \<open>ds\<close> holds row numbers: for the history
  of fifteen samples and two steps it is 15 and 16, while the last timestamp of the
  history is 840000000000 (14 minutes, in nanoseconds).
\<close>

theorem sarima_ds_is_row_number:
  "get_col example_history ''timestamp'' = Inr (Datetimes (map (\<lambda>k. Some (int k * minute)) [0..<15]))
   \<and> last (map (\<lambda>k. Some (int k * minute)) [0..<15]) = Some 840000000000
   \<and> sarima_forecast example_library example_history 2
       = Inr [(''ds'', Ints [15, 16]), (''yhat_sarima'', Floats [Fin 1, Fin 2])]
   \<and> \<not> (840000000000 < (15::int)) \<and> \<not> (840000000000 < (16::int))"
  by code_simp

text \<open>
  Claim C3 as amended. Whenever \<open>run_sarima_forecast\<close> returns for the horizon
  \<open>steps\<close>, the table it returns and writes has exactly the columns \<open>ds\<close> and
  \<open>yhat_sarima\<close>, with exactly \<open>steps\<close> rows; \<open>ds\<close> holds the row numbers
  \<open>n, ..., n + steps - 1\<close>, where \<open>n\<close> is the number of rows of the history: strictly
  increasing, and all after the last row number \<open>n - 1\<close> of the history.
\<close>

theorem sarima_forecast_rows:
  assumes "run_sarima_forecast L df steps w = Returned sarima_df w'"
  shows "\<exists>y ds yhat. get_col df ''price_usd'' = Inr y
           \<and> map fst sarima_df = [''ds'', ''yhat_sarima'']
           \<and> get_col sarima_df ''ds'' = Inr (Ints ds)
           \<and> get_col sarima_df ''yhat_sarima'' = Inr (Floats yhat)
           \<and> length ds = steps \<and> length yhat = steps
           \<and> ds = map int [col_len y..<col_len y + steps]
           \<and> sorted_wrt (<) ds
           \<and> (\<forall>d\<in>set ds. int (col_len y) - 1 < d)
           \<and> files w' ''forecast_sarima.csv'' = Some (CSV sarima_df)"
proof -
  from run_sarima_Returned [OF assms]
  have fc: "sarima_forecast L df steps = Inr sarima_df"
    and fs: "files w' = (files w)(''forecast_sarima.csv'' \<mapsto> CSV sarima_df)"
    by simp_all
  from fc obtain y pm where y: "get_col df ''price_usd'' = Inr y"
    and "sarimax_fit L y = Inr pm" and "steps \<noteq> 0"
    and df: "sarima_df = [(''ds'', Ints (map int [col_len y..<col_len y + steps])),
                 (''yhat_sarima'', Floats (map (\<lambda>h. Fin (pm h)) [1..<steps + 1]))]"
    by (auto simp: sarima_forecast_def and_then_Inr_iff Let_def split: if_splits)
  have "sorted_wrt (<) (map int [col_len y..<col_len y + steps])"
    by (simp add: sorted_wrt_map sorted_wrt_iff_nth_less)
  then show ?thesis
    using y fs by (auto simp: df get_col_def simp del: upt_Suc)
qed

theorem sarima_forecast_rows_witness:
  "run_sarima_forecast example_library example_history 2 history_world
     = Returned [(''ds'', Ints [15, 16]), (''yhat_sarima'', Floats [Fin 1, Fin 2])]
         (print (Line ''-> SARIMA step complete'')
           (print (Line ''Saved SARIMA forecast to forecast_sarima.csv'')
             (to_csv [(''ds'', Ints [15, 16]), (''yhat_sarima'', Floats [Fin 1, Fin 2])]
                ''forecast_sarima.csv'' history_world)))
   \<and> (\<exists>y ds yhat. get_col example_history ''price_usd'' = Inr y
           \<and> get_col [(''ds'', Ints [15, 16]), (''yhat_sarima'', Floats [Fin 1, Fin 2])] ''ds''
               = Inr (Ints ds)
           \<and> get_col [(''ds'', Ints [15, 16]), (''yhat_sarima'', Floats [Fin 1, Fin 2])] ''yhat_sarima''
               = Inr (Floats yhat)
           \<and> length ds = 2 \<and> length yhat = 2
           \<and> ds = map int [col_len y..<col_len y + 2]
           \<and> sorted_wrt (<) ds
           \<and> (\<forall>d\<in>set ds. int (col_len y) - 1 < d))"
proof -
  have ev: "sarima_forecast example_library example_history 2
      = Inr [(''ds'', Ints [15, 16]), (''yhat_sarima'', Floats [Fin 1, Fin 2])]"
    by code_simp
  have h: "run_sarima_forecast example_library example_history 2 history_world
     = Returned [(''ds'', Ints [15, 16]), (''yhat_sarima'', Floats [Fin 1, Fin 2])]
         (print (Line ''-> SARIMA step complete'')
           (print (Line ''Saved SARIMA forecast to forecast_sarima.csv'')
             (to_csv [(''ds'', Ints [15, 16]), (''yhat_sarima'', Floats [Fin 1, Fin 2])]
                ''forecast_sarima.csv'' history_world)))"
    by (simp add: run_sarima_forecast_def ev)
  from sarima_forecast_rows [OF h] h show ?thesis by blast
qed

section \<open>The decomposition\<close>

text \<open>
  Claim C8 says that a series of at least \<open>2 * period\<close> points is decomposed and drawn
  as three panels (trend, seasonal, residual). The history of fifteen samples resamples
  to fifteen points. With the period 5 the figure that \<open>run_seasonal_decompose\<close> writes
  has four panels, the first of them the observed series, since
  \<open>DecomposeResult.plot()\<close> draws the observed series too. With the period 0 the
  series has at least \<open>2 * period\<close> points and the decomposition raises; no figure is
  written.
\<close>

theorem decomposition_plot_has_four_panels:
  "resample example_history = Inr (map (\<lambda>k. (int k * minute, Fin (100 + real k))) [0..<15])
   \<and> raised (run_seasonal_decompose example_library example_history 5 history_world) = None
   \<and> files (world_of (run_seasonal_decompose example_library example_history 5 history_world))
        ''seasonal_decompose.png''
       = Some (PNG \<lparr>panels = [(Observed, map (\<lambda>k. Fin (100 + real k)) [0..<15]),
                               (Trend, map (\<lambda>k. Fin (100 + real k)) [0..<15]),
                               (Seasonal, map (\<lambda>k. Fin 0) [0..<15]),
                               (Resid, map (\<lambda>k. Fin 0) [0..<15])],
                     size_inches = (10, 8)\<rparr>)
   \<and> raised (run_seasonal_decompose example_library example_history 0 history_world)
       = Some ZeroDivisionError
   \<and> files (world_of (run_seasonal_decompose example_library example_history 0 history_world))
        ''seasonal_decompose.png'' = None"
  by code_simp

text \<open>
  Claim C8 as amended. Let the resampling of the table give a series. If the series has
  fewer than \<open>2 * period\<close> points, \<open>run_seasonal_decompose\<close> raises and leaves the
  world as it was (no plot is written); when the values are finite the error is the
  library's \<open>ValueError\<close> for a series with fewer than two complete cycles. If the
  series has at least \<open>2 * period\<close> points, the period is at least 1 and the values are
  finite, the decomposition succeeds and a figure of four panels (the observed series,
  the trend, the seasonal component and the residual, in this order), sized 10 by 8
  inches, is written to \<open>seasonal_decompose.png\<close>, and no other file changes. With
  the period 0 and finite values the run raises \<open>ZeroDivisionError\<close> and writes
  nothing.
\<close>

theorem decomposition_needs_two_periods:
  assumes "resample df = Inr series"
  shows "(length series < 2 * period \<longrightarrow>
            raised (run_seasonal_decompose L df period w) \<noteq> None
            \<and> world_of (run_seasonal_decompose L df period w) = w)
       \<and> (length series < 2 * period \<and> list_all is_fin (map snd series) \<longrightarrow>
            run_seasonal_decompose L df period w = Raised (ValueError Too_Few_Observations) w)
       \<and> (2 * period \<le> length series \<and> 0 < period \<and> list_all is_fin (map snd series) \<longrightarrow>
            (\<exists>t s r.
               decompose_additive L (map fin_val (map snd series)) period = (t, s, r)
               \<and> raised (run_seasonal_decompose L df period w) = None
               \<and> files (world_of (run_seasonal_decompose L df period w))
                   = (files w)(''seasonal_decompose.png''
                        \<mapsto> PNG \<lparr>panels = [(Observed, map snd series), (Trend, t),
                                               (Seasonal, s), (Resid, r)],
                                     size_inches = (10, 8)\<rparr>)))
       \<and> (period = 0 \<and> list_all is_fin (map snd series) \<longrightarrow>
            run_seasonal_decompose L df period w = Raised ZeroDivisionError w)"
proof -
  have short: "raised (run_seasonal_decompose L df period w) \<noteq> None
      \<and> world_of (run_seasonal_decompose L df period w) = w"
    if "length series < 2 * period"
  proof -
    from that have "\<exists>e. seasonal_decompose L (map snd series) period = Inl e"
      by (simp add: seasonal_decompose_def)
    then show ?thesis
      using assms by (auto simp: run_seasonal_decompose_def and_then_def)
  qed
  have short_finite: "run_seasonal_decompose L df period w = Raised (ValueError Too_Few_Observations) w"
    if "length series < 2 * period \<and> list_all is_fin (map snd series)"
    using that assms by (simp add: run_seasonal_decompose_def and_then_def seasonal_decompose_def)
  have zero: "run_seasonal_decompose L df period w = Raised ZeroDivisionError w"
    if "period = 0 \<and> list_all is_fin (map snd series)"
    using that assms by (simp add: run_seasonal_decompose_def and_then_def seasonal_decompose_def)
  have long: "\<exists>t s r.
       decompose_additive L (map fin_val (map snd series)) period = (t, s, r)
       \<and> raised (run_seasonal_decompose L df period w) = None
       \<and> files (world_of (run_seasonal_decompose L df period w))
           = (files w)(''seasonal_decompose.png''
                \<mapsto> PNG \<lparr>panels = [(Observed, map snd series), (Trend, t),
                                       (Seasonal, s), (Resid, r)],
                             size_inches = (10, 8)\<rparr>)"
    if long: "2 * period \<le> length series \<and> 0 < period \<and> list_all is_fin (map snd series)"
  proof -
    obtain t s r where dec: "decompose_additive L (map fin_val (map snd series)) period = (t, s, r)"
      by (cases "decompose_additive L (map fin_val (map snd series)) period") auto
    define result where "result = \<lparr>observed = map snd series, trend = t, seasonal = s, resid = r\<rparr>"
    have "seasonal_decompose L (map snd series) period = Inr result"
      using long dec by (simp add: seasonal_decompose_def result_def)
    then have "run_seasonal_decompose L df period w
        = Returned ()
            (print (Line ''-> Decompose step complete'')
              (print (Line ''Saved seasonal decomposition plot to seasonal_decompose.png'')
                (savefig (set_size_inches (10, 8) (plot result)) ''seasonal_decompose.png'' w)))"
      using assms by (simp add: run_seasonal_decompose_def and_then_def)
    moreover have "set_size_inches (10, 8) (plot result)
        = \<lparr>panels = [(Observed, map snd series), (Trend, t), (Seasonal, s), (Resid, r)],
            size_inches = (10, 8)\<rparr>"
      by (simp add: set_size_inches_def plot_def result_def)
    ultimately show ?thesis
      using dec by (intro exI [of _ t] exI [of _ s] exI [of _ r]) (simp add: files_print files_savefig)
  qed
  from short short_finite long zero show ?thesis by blast
qed

theorem decomposition_needs_two_periods_witness:
  "resample example_history = Inr (map (\<lambda>k. (int k * minute, Fin (100 + real k))) [0..<15])
   \<and> list_all is_fin (map snd (map (\<lambda>k. (int k * minute, Fin (100 + real k))) [0..<15]))
   \<and> length (map (\<lambda>k. (int k * minute, Fin (100 + real k))) [0..<15]) < 2 * 60
   \<and> 2 * 5 \<le> length (map (\<lambda>k. (int k * minute, Fin (100 + real k))) [0..<15])
   \<and> run_seasonal_decompose example_library example_history 60 history_world
       = Raised (ValueError Too_Few_Observations) history_world
   \<and> (\<exists>t s r.
         raised (run_seasonal_decompose example_library example_history 5 history_world) = None
         \<and> files (world_of (run_seasonal_decompose example_library example_history 5 history_world))
             = (files history_world)(''seasonal_decompose.png''
                  \<mapsto> PNG \<lparr>panels = [(Observed, map snd (map (\<lambda>k. (int k * minute, Fin (100 + real k))) [0..<15])),
                                         (Trend, t), (Seasonal, s), (Resid, r)],
                               size_inches = (10, 8)\<rparr>))
   \<and> run_seasonal_decompose example_library example_history 0 history_world
       = Raised ZeroDivisionError history_world"
proof -
  let ?series = "map (\<lambda>k. (int k * minute, Fin (100 + real k))) [0..<15]"
  have h1: "resample example_history = Inr ?series"
    by code_simp
  have h2: "list_all is_fin (map snd ?series)"
    by code_simp
  have short: "length ?series < 2 * 60" and long: "2 * 5 \<le> length ?series" "(0::nat) < 5"
    by simp_all
  from decomposition_needs_two_periods [OF h1, of 60 example_library history_world] short h2
  have "run_seasonal_decompose example_library example_history 60 history_world
       = Raised (ValueError Too_Few_Observations) history_world"
    by blast
  moreover from decomposition_needs_two_periods [OF h1, of 5 example_library history_world] long h2
  have "\<exists>t s r.
         raised (run_seasonal_decompose example_library example_history 5 history_world) = None
         \<and> files (world_of (run_seasonal_decompose example_library example_history 5 history_world))
             = (files history_world)(''seasonal_decompose.png''
                  \<mapsto> PNG \<lparr>panels = [(Observed, map snd ?series), (Trend, t), (Seasonal, s), (Resid, r)],
                               size_inches = (10, 8)\<rparr>)"
    by blast
  moreover from decomposition_needs_two_periods [OF h1, of 0 example_library history_world] h2
  have "run_seasonal_decompose example_library example_history 0 history_world
       = Raised ZeroDivisionError history_world"
    by blast
  ultimately show ?thesis using h1 h2 short long(1) by blast
qed

section \<open>main\<close>

text \<open>
  Claim C1 says that a failure of one forecaster does not keep the other two from
  running. \<open>main\<close> calls the three steps one after the other with no handler, so the
  first exception ends the run. For a history of one row the Prophet step raises (the
  fit needs two rows); the SARIMA step, which on its own returns and writes its table
  for this history, is never reached, and \<open>forecast_sarima.csv\<close> does not exist after
  \<open>main\<close>.
\<close>

theorem failed_prophet_stops_main:
  "load_history example_library short_world = Inr short_table
   \<and> raised (run_prophet_forecast example_library short_table 60 minute short_world)
       = Some (ValueError Too_Few_Rows)
   \<and> raised (run_sarima_forecast example_library short_table 60 short_world) = None
   \<and> files (world_of (run_sarima_forecast example_library short_table 60 short_world))
        ''forecast_sarima.csv'' \<noteq> None
   \<and> raised (main example_library short_world) = Some (ValueError Too_Few_Rows)
   \<and> files (world_of (main example_library short_world)) ''forecast_sarima.csv'' = None"
  by code_simp

text \<open>
  Claim C1 as amended. \<open>main\<close> runs the trend/seasonality forecast, the seasonal
  autoregressive forecast and the decomposition in this order over the same loaded
  table and stops at the first step that raises, with that error: the steps before it
  have written their artifacts, the failing step and the steps after it write nothing.
  A failure of the load ends the run before any step.
\<close>

theorem main_stops_at_first_failure:
  "(load_history L w = Inl e \<longrightarrow> main L w = Raised e w)
   \<and> (load_history L w = Inr df
        \<and> run_prophet_forecast L df 60 minute w = Raised e w1 \<longrightarrow>
       main L w = Raised e w \<and> w1 = w)
   \<and> (load_history L w = Inr df
        \<and> run_prophet_forecast L df 60 minute w = Returned fc w1
        \<and> run_sarima_forecast L df 60 w1 = Raised e w2 \<longrightarrow>
       main L w = Raised e w1 \<and> w2 = w1
       \<and> files w1 = (files w)(''forecast_prophet.csv'' \<mapsto> CSV fc))
   \<and> (load_history L w = Inr df
        \<and> run_prophet_forecast L df 60 minute w = Returned fc w1
        \<and> run_sarima_forecast L df 60 w1 = Returned sf w2
        \<and> run_seasonal_decompose L df 60 w2 = Raised e w3 \<longrightarrow>
       main L w = Raised e w2 \<and> w3 = w2
       \<and> files w2 = (files w)(''forecast_prophet.csv'' \<mapsto> CSV fc,
                              ''forecast_sarima.csv'' \<mapsto> CSV sf))
   \<and> (load_history L w = Inr df
        \<and> run_prophet_forecast L df 60 minute w = Returned fc w1
        \<and> run_sarima_forecast L df 60 w1 = Returned sf w2
        \<and> run_seasonal_decompose L df 60 w2 = Returned u w3 \<longrightarrow>
       main L w = Returned () w3
       \<and> (\<exists>fig. files w3 = (files w)(''forecast_prophet.csv'' \<mapsto> CSV fc,
                                      ''forecast_sarima.csv'' \<mapsto> CSV sf,
                                      ''seasonal_decompose.png'' \<mapsto> PNG fig)))"
proof -
  have c0: "main L w = Raised e w" if "load_history L w = Inl e"
    using that by (simp add: main_def)
  have c1: "main L w = Raised e w \<and> w1 = w"
    if "load_history L w = Inr df \<and> run_prophet_forecast L df 60 minute w = Raised e w1"
    using that run_prophet_Raised [of L df 60 minute w e w1] by (simp add: main_def)
  have c2: "main L w = Raised e w1 \<and> w2 = w1
       \<and> files w1 = (files w)(''forecast_prophet.csv'' \<mapsto> CSV fc)"
    if "load_history L w = Inr df
        \<and> run_prophet_forecast L df 60 minute w = Returned fc w1
        \<and> run_sarima_forecast L df 60 w1 = Raised e w2"
    using that run_sarima_Raised [of L df 60 w1 e w2] run_prophet_Returned [of L df 60 minute w fc w1]
    by (simp add: main_def)
  have c3: "main L w = Raised e w2 \<and> w3 = w2
       \<and> files w2 = (files w)(''forecast_prophet.csv'' \<mapsto> CSV fc,
                              ''forecast_sarima.csv'' \<mapsto> CSV sf)"
    if "load_history L w = Inr df
        \<and> run_prophet_forecast L df 60 minute w = Returned fc w1
        \<and> run_sarima_forecast L df 60 w1 = Returned sf w2
        \<and> run_seasonal_decompose L df 60 w2 = Raised e w3"
    using that run_decompose_Raised [of L df 60 w2 e w3]
      run_prophet_Returned [of L df 60 minute w fc w1] run_sarima_Returned [of L df 60 w1 sf w2]
    by (simp add: main_def)
  have c4: "main L w = Returned () w3
       \<and> (\<exists>fig. files w3 = (files w)(''forecast_prophet.csv'' \<mapsto> CSV fc,
                                      ''forecast_sarima.csv'' \<mapsto> CSV sf,
                                      ''seasonal_decompose.png'' \<mapsto> PNG fig))"
    if h: "load_history L w = Inr df
        \<and> run_prophet_forecast L df 60 minute w = Returned fc w1
        \<and> run_sarima_forecast L df 60 w1 = Returned sf w2
        \<and> run_seasonal_decompose L df 60 w2 = Returned u w3"
  proof -
    from h have "\<exists>fig. files w3 = (files w2)(''seasonal_decompose.png'' \<mapsto> PNG fig)"
      by (auto simp: run_seasonal_decompose_def files_print files_savefig split: sum.splits)
    then show ?thesis
      using h run_prophet_Returned [of L df 60 minute w fc w1]
        run_sarima_Returned [of L df 60 w1 sf w2]
      by (auto simp: main_def)
  qed
  from c0 c1 c2 c3 c4 show ?thesis by blast
qed

theorem main_stops_at_first_failure_witness:
  "load_history example_library short_world = Inr short_table
   \<and> run_prophet_forecast example_library short_table 60 minute short_world
       = Raised (ValueError Too_Few_Rows) short_world
   \<and> main example_library short_world = Raised (ValueError Too_Few_Rows) short_world"
proof -
  have h1: "load_history example_library short_world = Inr short_table"
    by code_simp
  have ev: "prophet_forecast example_library short_table 60 minute = Inl (ValueError Too_Few_Rows)"
    by code_simp
  have h2: "run_prophet_forecast example_library short_table 60 minute short_world
       = Raised (ValueError Too_Few_Rows) short_world"
    by (simp add: run_prophet_forecast_def ev)
  from main_stops_at_first_failure [of example_library short_world _ short_table short_world] h1 h2
  show ?thesis by blast
qed

section \<open>The resampled series\<close>

text \<open>
  Claim C7 says that every point of the resampled series holds the last value observed
  at or before it. \<open>asfreq\<close> reindexes: a point of the minute grid (which starts at the
  earliest sample) takes the sample whose timestamp is exactly that point, every other
  sample is dropped, and only then the gaps are filled forward. For samples at 0:00,
  1:30 and 3:00 the point 2:00 holds 100, the value of the sample at 0:00, although the
  last value observed before 2:00 is 200.
\<close>

theorem off_grid_sample_is_dropped:
  "resample off_grid_table
     = Inr [(0, Fin 100), (60000000000, Fin 100), (120000000000, Fin 100), (180000000000, Fin 300)]
   \<and> last_observed [(0, Fin 100), (90000000000, Fin 200), (180000000000, Fin 300)] 120000000000
     = Fin 200"
  by code_simp

text \<open>
  Claim C7 as amended. For every series of samples with distinct timestamps that all
  lie a whole number of minutes after the earliest one, and with prices that are not
  missing, the resampling gives one point per minute from the earliest to the latest
  timestamp, and every point holds the value of the latest sample at or before it. Two
  samples three minutes apart give the two samples and, between them, exactly two points
  that hold the value of the earlier one.
\<close>

theorem resample_holds_last_observed:
  assumes tc: "get_col df ''timestamp'' = Inr (Datetimes (map Some ts))"
    and pc: "get_col df ''price_usd'' = Inr pc" "as_float pc = Inr vals"
    and len: "length vals = length ts" and ne: "ts \<noteq> []" and dist: "distinct ts"
    and nonan: "NaN \<notin> set vals"
    and grid: "\<forall>t\<in>set ts. (t - Min (set ts)) mod minute = 0"
  shows "\<exists>series. resample df = Inr series
           \<and> length series = nat ((Max (set ts) - Min (set ts)) div minute) + 1
           \<and> (\<forall>k<length series. fst (series ! k) = Min (set ts) + int k * minute)
           \<and> fst (last series) = Max (set ts)
           \<and> (\<forall>k<length series.
                 snd (series ! k) = last_observed (zip ts vals) (fst (series ! k)))"
proof -
  define lo where "lo = Min (set ts)"
  define hi where "hi = Max (set ts)"
  define N where "N = nat ((hi - lo) div minute) + 1"
  define look where "look = (\<lambda>g. case map_of (zip ts vals) g of None \<Rightarrow> NaN | Some v \<Rightarrow> v)"
  define series where "series = zip (date_range_to lo hi minute)
      (ffill (map look (date_range_to lo hi minute)))"
  have m0: "0 < minute" by (simp add: minute_def)
  have run: "resample df = Inr series"
    unfolding series_def lo_def hi_def look_def
    using tc pc len ne dist by (rule resample_on_timestamps)
  have len_series: "length series = N"
    by (simp add: series_def length_date_range_to ffill_def length_ffill_from N_def)
  have fst_nth: "fst (series ! k) = lo + int k * minute" if "k < N" for k
    using that by (simp add: series_def length_date_range_to ffill_def length_ffill_from
        N_def nth_date_range_to)
  have snd_nth: "snd (series ! k) = last_observed (zip ts vals) (lo + int k * minute)"
    if "k < N" for k
  proof -
    have "snd (series ! k) = ffill (map look (date_range_to lo hi minute)) ! k"
      using that by (simp add: series_def length_date_range_to ffill_def length_ffill_from N_def)
    also have "\<dots> = last_observed (zip ts vals) (lo + int k * minute)"
      unfolding look_def lo_def hi_def
      using len ne dist nonan grid that
      by (intro resampled_value) (simp_all add: N_def lo_def hi_def)
    finally show ?thesis .
  qed
  have hi_in: "hi \<in> set ts" and lo_hi: "lo \<le> hi"
    using ne by (simp_all add: hi_def lo_def)
  have "hi = lo + int (nat ((hi - lo) div minute)) * minute"
    using m0 lo_hi grid hi_in by (intro on_grid) (auto simp: lo_def)
  moreover have "series \<noteq> []"
    using len_series by (auto simp: N_def)
  then have "last series = series ! (N - 1)"
    using len_series by (simp add: last_conv_nth)
  ultimately have last: "fst (last series) = hi"
    using fst_nth [of "N - 1"] by (simp add: N_def)
  show ?thesis
    apply (rule exI [of _ series])
    using run len_series fst_nth snd_nth last
    by (simp add: N_def lo_def hi_def)
qed

theorem resample_holds_last_observed_witness:
  "get_col gap_table ''timestamp'' = Inr (Datetimes (map Some [0, 180000000000]))
   \<and> get_col gap_table ''price_usd'' = Inr (Floats [Fin 100, Fin 130])
   \<and> as_float (Floats [Fin 100, Fin 130]) = Inr [Fin 100, Fin 130]
   \<and> distinct [0, 180000000000 :: int]
   \<and> NaN \<notin> set [Fin 100, Fin 130]
   \<and> list_all (\<lambda>t. (t - Min (set [0, 180000000000])) mod minute = 0) [0, 180000000000]
   \<and> resample gap_table
       = Inr [(0, Fin 100), (60000000000, Fin 100), (120000000000, Fin 100), (180000000000, Fin 130)]
   \<and> (\<exists>series. resample gap_table = Inr series
           \<and> length series = nat ((Max (set [0, 180000000000]) - Min (set [0, 180000000000])) div minute) + 1
           \<and> (\<forall>k<length series. fst (series ! k) = Min (set [0, 180000000000]) + int k * minute)
           \<and> fst (last series) = Max (set [0, 180000000000])
           \<and> (\<forall>k<length series.
                 snd (series ! k)
                   = last_observed (zip [0, 180000000000] [Fin 100, Fin 130]) (fst (series ! k))))"
proof -
  have h1: "get_col gap_table ''timestamp'' = Inr (Datetimes (map Some [0, 180000000000]))"
    by code_simp
  have h2: "get_col gap_table ''price_usd'' = Inr (Floats [Fin 100, Fin 130])"
    by code_simp
  have h3: "as_float (Floats [Fin 100, Fin 130]) = Inr [Fin 100, Fin 130]"
    by simp
  have h4: "length [Fin 100, Fin 130] = length [0, 180000000000 :: int]"
    by simp
  have h5: "[0, 180000000000 :: int] \<noteq> []"
    by simp
  have h6: "distinct [0, 180000000000 :: int]"
    by simp
  have h7: "NaN \<notin> set [Fin 100, Fin 130]"
    by simp
  have h8: "list_all (\<lambda>t. (t - Min (set [0, 180000000000])) mod minute = 0) [0, 180000000000]"
    by code_simp
  from h8 have h8': "\<forall>t\<in>set [0, 180000000000]. (t - Min (set [0, 180000000000])) mod minute = 0"
    unfolding list_all_iff .
  have ev: "resample gap_table
       = Inr [(0, Fin 100), (60000000000, Fin 100), (120000000000, Fin 100), (180000000000, Fin 130)]"
    by code_simp
  from resample_holds_last_observed [OF h1 h2 h3 h4 h5 h6 h7 h8'] h1 h2 h3 h6 h7 h8 ev
  show ?thesis by blast
qed

end
